theory Spec2Isabelle
  imports Complex_Main "HOL-Library.Word" "HOL-Library.AList"
begin

section \<open>The on-chain gate: TokenContract\<close>

text \<open>
  The Solidity contract \<open>TokenContract is KRNL, ERC20\<close> of
  \<^verbatim>\<open>frontend/src/components/kernels/offchain/1657/index.ts\<close> (second document of the file).
  A call is a function from the contract state to either a failure (the call reverts) or the
  new state with the returned value.
\<close>

subsection \<open>Solidity value types\<close>

type_synonym address = "160 word"
type_synonym uint256 = "256 word"
type_synonym bytes32 = "256 word"
type_synonym bytes = "8 word list"

text \<open>\<open>bytes(s)\<close>: the bytes of a string.\<close>

definition bytes_of :: "string \<Rightarrow> bytes" where
  "bytes_of s = map (\<lambda>c. of_nat (of_char c)) s"

text \<open>Big-endian bytes of a number, on \<open>n\<close> bytes, and back.\<close>

fun be_bytes :: "nat \<Rightarrow> nat \<Rightarrow> bytes" where
  "be_bytes 0 v = []"
| "be_bytes (Suc n) v = be_bytes n (v div 256) @ [of_nat (v mod 256)]"

definition be_nat :: "bytes \<Rightarrow> nat" where
  "be_nat bs = foldl (\<lambda>acc b. acc * 256 + unat b) 0 bs"

subsection \<open>Structs\<close>

record WebhookPayload =
  createdAt :: string
  customerId :: string
  externalTransactionId :: string
  id' :: string
  reason :: string
  riskLevel :: string
  riskScore :: uint256
  status :: string
  transactionDate :: string
  transactionId :: string
  transactionType :: string
  updatedAt :: string
  workspaceId :: string

record WebhookResponse =
  eventType :: string
  payload :: WebhookPayload

text \<open>
  \<open>KernelResponse\<close> and \<open>KrnlPayload\<close> are declared in \<^verbatim>\<open>KRNL.sol\<close>; their fields are the
  ones the contract and the test script read and write.
\<close>

record KernelResponse =
  kernelId :: uint256
  result :: bytes
  err :: string

record KrnlPayload =
  auth :: bytes
  kernelResponses :: bytes
  kernelParams :: bytes

subsection \<open>Events, failures, state\<close>

datatype event =
    TransferAssessed address address uint256 string bool uint256
  | Transfer address address uint256

datatype failure =
    Revert string
  | AbiDecodeFailure
  | NotAuthorized
  | ERC20InsufficientBalance
  | ERC20InsufficientAllowance
  | ERC20InvalidSender
  | ERC20InvalidReceiver
  | ERC20InvalidApprover
  | ERC20InvalidSpender

record TokenContract =
  balances :: "address \<Rightarrow> uint256"
  allowances :: "address \<Rightarrow> address \<Rightarrow> uint256"
  contractOwner :: address
  transferAssessments :: "bytes32 \<Rightarrow> WebhookResponse"
  events :: "event list"

text \<open>The transaction context: \<open>msg.sender\<close> and \<open>block.timestamp\<close>.\<close>

record tx_context =
  msg_sender :: address
  block_timestamp :: uint256

text \<open>
  What the contract takes from outside this file, as parameters: the hash \<open>keccak256\<close>,
  \<open>abi.decode\<close> at the two types the gate decodes (\<open>None\<close>: the bytes do not decode and the
  call reverts), and the check of the modifier \<open>onlyAuthorized\<close> of \<^verbatim>\<open>KRNL.sol\<close> on
  \<open>msg.sender\<close>, the payload and the encoded parameters.
\<close>

record evm =
  keccak256 :: "bytes \<Rightarrow> bytes32"
  abi_decode_KernelResponses :: "bytes \<Rightarrow> KernelResponse list option"
  abi_decode_WebhookResponse :: "bytes \<Rightarrow> WebhookResponse option"
  onlyAuthorized :: "address \<Rightarrow> KrnlPayload \<Rightarrow> bytes \<Rightarrow> bool"

subsection \<open>ABI encoding of the authorized parameters\<close>

text \<open>
  \<open>abi.encode\<close> of static values: one 32-byte big-endian word each, an address left-padded
  with zeros. \<open>abi.encodePacked\<close>: an address on 20 bytes, a \<open>uint256\<close> on 32, no padding.
\<close>

definition abi_encode_address :: "address \<Rightarrow> bytes" where
  "abi_encode_address a = be_bytes 32 (unat a)"

definition abi_encode_uint256 :: "uint256 \<Rightarrow> bytes" where
  "abi_encode_uint256 v = be_bytes 32 (unat v)"

definition abi_encodePacked4 :: "address \<Rightarrow> address \<Rightarrow> uint256 \<Rightarrow> uint256 \<Rightarrow> bytes" where
  "abi_encodePacked4 from to amount ts =
     be_bytes 20 (unat from) @ be_bytes 20 (unat to) @ be_bytes 32 (unat amount) @ be_bytes 32 (unat ts)"

subsection \<open>The inherited ERC20 functions\<close>

text \<open>
  Modelled from the spec: \<open>_transfer\<close> and \<open>_spendAllowance\<close> are inherited from the
  OpenZeppelin \<open>ERC20\<close> contract, which is not part of the sources. The spec: "token balance is
  debited from sender and credited to recipient in the same atomic operation"; the debit
  reverts when the sender's balance is below the amount, both addresses must be non-zero, and a
  \<open>Transfer\<close> event is logged. \<open>_spendAllowance\<close> lowers the allowance of the spender by the
  amount, reverts when it is too low, and leaves an infinite allowance (the maximal value)
  as it is.
\<close>

definition ERC20_transfer :: "address \<Rightarrow> address \<Rightarrow> uint256 \<Rightarrow> TokenContract \<Rightarrow> failure + TokenContract" where
  "ERC20_transfer from to amount st =
     (if from = 0 then Inl ERC20InvalidSender
      else if to = 0 then Inl ERC20InvalidReceiver
      else if balances st from < amount then Inl ERC20InsufficientBalance
      else
        let b1 = (balances st)(from := balances st from - amount);
            b2 = b1(to := b1 to + amount)
        in Inr (st\<lparr>balances := b2, events := events st @ [Transfer from to amount]\<rparr>))"

definition ERC20_spendAllowance :: "address \<Rightarrow> address \<Rightarrow> uint256 \<Rightarrow> TokenContract \<Rightarrow> failure + TokenContract" where
  "ERC20_spendAllowance owner spender amount st =
     (let currentAllowance = allowances st owner spender in
      if currentAllowance = - 1 then Inr st
      else if currentAllowance < amount then Inl ERC20InsufficientAllowance
      else if owner = 0 then Inl ERC20InvalidApprover
      else if spender = 0 then Inl ERC20InvalidSpender
      else Inr (st\<lparr>allowances :=
             (allowances st)(owner := (allowances st owner)(spender := currentAllowance - amount))\<rparr>))"

subsection \<open>checkTransferAllowed\<close>

text \<open>
  The loop over the decoded responses: the first entry whose \<open>kernelId\<close> is 1657 decides.
  Its result is decoded, stored under the hash of \<open>(from, to, amount, block.timestamp)\<close>,
  the event is logged, and the function returns whether the status hashes to the hash of
  "approved". With no such entry the function returns false.
\<close>

fun checkTransferAllowed_loop ::
  "evm \<Rightarrow> tx_context \<Rightarrow> KernelResponse list \<Rightarrow> address \<Rightarrow> address \<Rightarrow> uint256 \<Rightarrow> TokenContract
    \<Rightarrow> failure + (TokenContract \<times> bool)" where
  "checkTransferAllowed_loop ev ctx [] from to amount st = Inr (st, False)"
| "checkTransferAllowed_loop ev ctx (r # rs) from to amount st =
     (if kernelId r = 1657 then
        (case abi_decode_WebhookResponse ev (result r) of
           None \<Rightarrow> Inl AbiDecodeFailure
         | Some response \<Rightarrow>
             let transferHash = keccak256 ev (abi_encodePacked4 from to amount (block_timestamp ctx));
                 st1 = st\<lparr>transferAssessments := (transferAssessments st)(transferHash := response)\<rparr>;
                 allowed = (keccak256 ev (bytes_of (status (payload response)))
                              = keccak256 ev (bytes_of ''approved''));
                 st2 = st1\<lparr>events := events st1 @
                         [TransferAssessed from to amount (status (payload response)) allowed
                            (block_timestamp ctx)]\<rparr>
             in Inr (st2, allowed))
      else checkTransferAllowed_loop ev ctx rs from to amount st)"

definition checkTransferAllowed ::
  "evm \<Rightarrow> tx_context \<Rightarrow> KrnlPayload \<Rightarrow> address \<Rightarrow> address \<Rightarrow> uint256 \<Rightarrow> TokenContract
    \<Rightarrow> failure + (TokenContract \<times> bool)" where
  "checkTransferAllowed ev ctx krnlPayload from to amount st =
     (case abi_decode_KernelResponses ev (kernelResponses krnlPayload) of
        None \<Rightarrow> Inl AbiDecodeFailure
      | Some rs \<Rightarrow> checkTransferAllowed_loop ev ctx rs from to amount st)"

definition getTransferAssessment :: "TokenContract \<Rightarrow> bytes32 \<Rightarrow> WebhookResponse" where
  "getTransferAssessment st transferHash = transferAssessments st transferHash"

subsection \<open>The entry points\<close>

definition transfer :: "tx_context \<Rightarrow> address \<Rightarrow> uint256 \<Rightarrow> TokenContract \<Rightarrow> failure + (TokenContract \<times> bool)" where
  "transfer ctx to amount st = Inl (Revert ''Use transfer with KRNL payload'')"

definition transferFrom ::
  "tx_context \<Rightarrow> address \<Rightarrow> address \<Rightarrow> uint256 \<Rightarrow> TokenContract \<Rightarrow> failure + (TokenContract \<times> bool)" where
  "transferFrom ctx from to amount st = Inl (Revert ''Use transferFrom with KRNL payload'')"

definition transferWithKRNL ::
  "evm \<Rightarrow> tx_context \<Rightarrow> address \<Rightarrow> uint256 \<Rightarrow> KrnlPayload \<Rightarrow> TokenContract
    \<Rightarrow> failure + (TokenContract \<times> bool)" where
  "transferWithKRNL ev ctx to amount krnlPayload st =
     (if \<not> onlyAuthorized ev (msg_sender ctx) krnlPayload
             (abi_encode_address to @ abi_encode_uint256 amount)
      then Inl NotAuthorized
      else if to = 0 then Inl (Revert ''ERC20: transfer to the zero address'')
      else
        (case checkTransferAllowed ev ctx krnlPayload (msg_sender ctx) to amount st of
           Inl e \<Rightarrow> Inl e
         | Inr (st1, allowed) \<Rightarrow>
             if \<not> allowed then Inl (Revert ''Transfer denied due to risk assessment'')
             else
               (case ERC20_transfer (msg_sender ctx) to amount st1 of
                  Inl e \<Rightarrow> Inl e
                | Inr st2 \<Rightarrow> Inr (st2, True))))"

definition transferFromWithKRNL ::
  "evm \<Rightarrow> tx_context \<Rightarrow> address \<Rightarrow> address \<Rightarrow> uint256 \<Rightarrow> KrnlPayload \<Rightarrow> TokenContract
    \<Rightarrow> failure + (TokenContract \<times> bool)" where
  "transferFromWithKRNL ev ctx from to amount krnlPayload st =
     (if \<not> onlyAuthorized ev (msg_sender ctx) krnlPayload
             (abi_encode_address from @ abi_encode_address to @ abi_encode_uint256 amount)
      then Inl NotAuthorized
      else if from = 0 then Inl (Revert ''ERC20: transfer from the zero address'')
      else if to = 0 then Inl (Revert ''ERC20: transfer to the zero address'')
      else
        (case checkTransferAllowed ev ctx krnlPayload from to amount st of
           Inl e \<Rightarrow> Inl e
         | Inr (st1, allowed) \<Rightarrow>
             if \<not> allowed then Inl (Revert ''Transfer denied due to risk assessment'')
             else
               (case ERC20_spendAllowance from (msg_sender ctx) amount st1 of
                  Inl e \<Rightarrow> Inl e
                | Inr st2 \<Rightarrow>
                    (case ERC20_transfer from to amount st2 of
                       Inl e \<Rightarrow> Inl e
                     | Inr st3 \<Rightarrow> Inr (st3, True)))))"

text \<open>
  A transaction is atomic: when the call reverts the state after it is the state before it,
  whatever the call wrote before the failing \<open>require\<close>.
\<close>

definition execute ::
  "(TokenContract \<Rightarrow> failure + (TokenContract \<times> 'a)) \<Rightarrow> TokenContract \<Rightarrow> TokenContract \<times> (failure + 'a)" where
  "execute call st =
     (case call st of
        Inl e \<Rightarrow> (st, Inl e)
      | Inr (st', v) \<Rightarrow> (st', Inr v))"

subsection \<open>The test script's simulation\<close>

text \<open>
  \<open>simulateTokenTransferVerification\<close> of the Foundry script \<open>TestTokenTransfer\<close>
  (\<^verbatim>\<open>Kernel/index.ts\<close>, third document): only an approved status passes, a risk level "High"
  is refused, and so is a risk score above 90.
\<close>

definition simulateTokenTransferVerification :: "evm \<Rightarrow> WebhookPayload \<Rightarrow> bool" where
  "simulateTokenTransferVerification ev payload' =
     (if keccak256 ev (bytes_of (status payload')) \<noteq> keccak256 ev (bytes_of ''approved'') then False
      else if keccak256 ev (bytes_of (riskLevel payload')) = keccak256 ev (bytes_of ''High'') then False
      else if riskScore payload' > 90 then False
      else True)"

text \<open>The structs that the script's \<open>generateTestPayload\<close> builds before encoding them.\<close>

definition testWebhookPayload ::
  "string \<Rightarrow> string \<Rightarrow> string \<Rightarrow> uint256 \<Rightarrow> string \<Rightarrow> WebhookPayload" where
  "testWebhookPayload status' riskLevel' reason' riskScore' externalTransactionId' =
     \<lparr> createdAt = ''2024-01-15T10:30:00Z'',
       customerId = ''78d29773-8aa6-4b33-aa53-2ffca3adbe7e'',
       externalTransactionId = externalTransactionId',
       id' = ''review-456789'',
       reason = reason',
       riskLevel = riskLevel',
       riskScore = riskScore',
       status = status',
       transactionDate = ''2024-01-15T10:30:00Z'',
       transactionId = ''compilot-tx-789'',
       transactionType = ''crypto'',
       updatedAt = ''2024-01-15T10:35:00Z'',
       workspaceId = ''workspace-123'' \<rparr>"

definition testWebhookResponse ::
  "string \<Rightarrow> string \<Rightarrow> string \<Rightarrow> uint256 \<Rightarrow> string \<Rightarrow> WebhookResponse" where
  "testWebhookResponse status' riskLevel' reason' riskScore' externalTransactionId' =
     \<lparr> eventType = ''transaction.updated'',
       payload = testWebhookPayload status' riskLevel' reason' riskScore' externalTransactionId' \<rparr>"

subsection \<open>The assumption on the hash, and a concrete chain for examples\<close>

text \<open>
  The gate compares the hash of the status with the hash of "approved". The claims speak of
  the status itself; they are stated for a hash under which no other string collides with
  "approved".
\<close>

definition approved_hash_unique :: "evm \<Rightarrow> bool" where
  "approved_hash_unique ev \<longleftrightarrow>
     (\<forall>s. keccak256 ev (bytes_of s) = keccak256 ev (bytes_of ''approved'') \<longrightarrow> s = ''approved'')"

text \<open>
  A small chain on which the calls can be evaluated: a hash that tells "approved" and "High"
  from everything else, a decoder of the responses that reads every byte \<open>b\<close> as one response
  of kernel 1657 with result \<open>[b]\<close>, a decoder of results that knows three decisions of the
  test script's shape, and a modifier that authorizes every call.
\<close>

definition toy_keccak256 :: "bytes \<Rightarrow> bytes32" where
  "toy_keccak256 bs =
     (if bs = bytes_of ''approved'' then 1 else if bs = bytes_of ''High'' then 2 else 0)"

definition toy_decode_WebhookResponse :: "bytes \<Rightarrow> WebhookResponse option" where
  "toy_decode_WebhookResponse bs =
     (if bs = [1] then
        Some (testWebhookResponse ''approved'' ''Low'' ''Transaction approved after risk assessment'' 15 ''tx-1'')
      else if bs = [2] then
        Some (testWebhookResponse ''rejected'' ''High''
                ''High risk indicators detected - transaction blocked'' 85 ''tx-2'')
      else if bs = [3] then
        Some (testWebhookResponse ''approved'' ''High'' ''Transaction approved after risk assessment'' 15 ''tx-3'')
      else None)"

definition toy_evm :: evm where
  "toy_evm =
     \<lparr> keccak256 = toy_keccak256,
       abi_decode_KernelResponses =
         (\<lambda>bs. Some (map (\<lambda>b. \<lparr> kernelId = 1657, result = [b], err = [] \<rparr>) bs)),
       abi_decode_WebhookResponse = toy_decode_WebhookResponse,
       onlyAuthorized = (\<lambda>sender krnlPayload params. True) \<rparr>"

definition toy_payload :: "bytes \<Rightarrow> KrnlPayload" where
  "toy_payload bs = \<lparr> auth = [], kernelResponses = bs, kernelParams = [] \<rparr>"

definition toy_state :: TokenContract where
  "toy_state =
     \<lparr> balances = (\<lambda>a. if a = 1 then 100 else 0),
       allowances = (\<lambda>owner spender. if owner = 1 \<and> spender = 3 then 50 else 0),
       contractOwner = 1,
       transferAssessments = (\<lambda>h. testWebhookResponse [] [] [] 0 []),
       events = [] \<rparr>"

definition toy_context :: "address \<Rightarrow> tx_context" where
  "toy_context sender = \<lparr> msg_sender = sender, block_timestamp = 1700000000 \<rparr>"

section \<open>The off-chain side: the request builder and the risk proxy\<close>

subsection \<open>JavaScript values\<close>

text \<open>
  A JavaScript number is a double: not-a-number, an infinity, or a finite value. A finite
  value is carried as the decimal that it prints as, the shortest decimal that reads back as
  the same double: a rational of the sign of the double, zero exactly when the double is. The
  builder compares the amount with zero, renders it and hands the rendering to the library.
\<close>

datatype number = NaN | PosInfinity | NegInfinity | Finite rat

datatype jsvalue =
    JUndefined
  | JNull
  | JBool bool
  | JNum number
  | JStr string
  | JArr "jsvalue list"
  | JObj "(string \<times> jsvalue) list"

datatype js_error = Error string | TypeError | LibraryError

text \<open>Truthiness (\<open>!x\<close> is its negation) and the comparison \<open>n <= 0\<close>.\<close>

definition number_truthy :: "number \<Rightarrow> bool" where
  "number_truthy n = (n \<noteq> NaN \<and> n \<noteq> Finite 0)"

definition number_le_zero :: "number \<Rightarrow> bool" where
  "number_le_zero n =
     (case n of NaN \<Rightarrow> False | PosInfinity \<Rightarrow> False | NegInfinity \<Rightarrow> True | Finite q \<Rightarrow> q \<le> 0)"

definition truthy :: "jsvalue \<Rightarrow> bool" where
  "truthy v =
     (case v of
        JUndefined \<Rightarrow> False
      | JNull \<Rightarrow> False
      | JBool b \<Rightarrow> b
      | JNum n \<Rightarrow> number_truthy n
      | JStr s \<Rightarrow> s \<noteq> []
      | JArr vs \<Rightarrow> True
      | JObj kvs \<Rightarrow> True)"

text \<open>An optional string argument: absent (\<open>undefined\<close>, \<open>null\<close>) or empty is falsy.\<close>

definition string_truthy :: "string option \<Rightarrow> bool" where
  "string_truthy s = (case s of None \<Rightarrow> False | Some t \<Rightarrow> t \<noteq> [])"

text \<open>Reading a property: \<open>undefined\<close> when the value is not an object or has no such key.\<close>

definition get_prop :: "jsvalue \<Rightarrow> string \<Rightarrow> jsvalue" where
  "get_prop v k =
     (case v of
        JObj kvs \<Rightarrow> (case map_of kvs k of Some x \<Rightarrow> x | None \<Rightarrow> JUndefined)
      | _ \<Rightarrow> JUndefined)"

text \<open>\<open>s.substring(a, b)\<close> for \<open>a \<le> b\<close>, and the decimal rendering of a non-negative integer.\<close>

definition substring :: "string \<Rightarrow> nat \<Rightarrow> nat \<Rightarrow> string" where
  "substring s a b = take (b - a) (drop a s)"

fun string_of_nat :: "nat \<Rightarrow> string" where
  "string_of_nat n =
     (if n < 10 then [''0123456789'' ! n]
      else string_of_nat (n div 10) @ [''0123456789'' ! (n mod 10)])"

subsection \<open>The risk proxy\<close>

fun processValue :: "jsvalue \<Rightarrow> jsvalue" where
  "processValue JNull = JStr ''null''"
| "processValue (JArr vs) = JArr (map processValue vs)"
| "processValue (JObj kvs) = JObj (map (\<lambda>(key, val). (key, processValue val)) kvs)"
| "processValue v = v"

text \<open>
  \<open>{ walletAddress: address, ...rest }\<close>: the new key comes first, and the spread of the
  rest writes every remaining key, overwriting a \<open>walletAddress\<close> the data already had.
\<close>

definition renameTopAddressKey :: "jsvalue \<Rightarrow> jsvalue" where
  "renameTopAddressKey data =
     (case data of
        JObj kvs \<Rightarrow>
          (case map_of kvs ''address'' of
             Some address \<Rightarrow>
               JObj (foldl (\<lambda>obj (k, v). AList.update k v obj) [(''walletAddress'', address)]
                       (filter (\<lambda>(k, v). k \<noteq> ''address'') kvs))
           | None \<Rightarrow> data)
      | _ \<Rightarrow> data)"

text \<open>Destructuring \<open>null\<close> or \<open>undefined\<close> throws; any other value gives its properties.\<close>

definition filterRiskFields :: "jsvalue \<Rightarrow> js_error + jsvalue" where
  "filterRiskFields data =
     (let renamed = renameTopAddressKey data in
      if renamed = JNull \<or> renamed = JUndefined then Inl TypeError
      else Inr (JObj [(''walletAddress'', get_prop renamed ''walletAddress''),
                      (''risk'', get_prop renamed ''risk''),
                      (''riskReason'', get_prop renamed ''riskReason''),
                      (''status'', get_prop renamed ''status'')]))"

text \<open>
  What the two single-address routes (GET and POST \<open>/api/risk/v2/entities\<close>) answer for an
  upstream body: \<open>filterRiskFields(processValue(response.data))\<close>.
\<close>

definition entityResponse :: "jsvalue \<Rightarrow> js_error + jsvalue" where
  "entityResponse data = filterRiskFields (processValue data)"

text \<open>
  \<open>processBatchResults\<close>: an item with a truthy \<open>error\<close> becomes \<open>{walletAddress, error}\<close>,
  any other item is \<open>filterRiskFields(result.assessment)\<close>; an exception in one item ends the
  whole map.
\<close>

fun processBatchResults :: "jsvalue list \<Rightarrow> js_error + jsvalue list" where
  "processBatchResults [] = Inr []"
| "processBatchResults (result' # results) =
     (case (if truthy (get_prop result' ''error'')
            then Inr (JObj [(''walletAddress'', get_prop result' ''address''),
                            (''error'', get_prop result' ''error'')])
            else filterRiskFields (get_prop result' ''assessment'')) of
        Inl e \<Rightarrow> Inl e
      | Inr x \<Rightarrow> (case processBatchResults results of Inl e \<Rightarrow> Inl e | Inr xs \<Rightarrow> Inr (x # xs)))"

text \<open>An item of the bulk route for an address whose upstream fetch answered \<open>data\<close>.\<close>

definition fetched :: "string \<Rightarrow> jsvalue \<Rightarrow> jsvalue" where
  "fetched address data = JObj [(''address'', JStr address), (''assessment'', data)]"

subsection \<open>Rendering and parsing an amount\<close>

declare string_of_nat.simps [simp del]

text \<open>
  \<open>amount.toString()\<close> is \<open>Number::toString\<close> of ECMAScript at radix 10: \<open>NaN\<close>, \<open>Infinity\<close>,
  \<open>0\<close>, a minus sign before the rendering of the absolute value, and for a positive value
  plain decimal notation from \<open>1e-6\<close> up to, but not including, \<open>1e21\<close>, and the notation
  \<open>d.ddde+n\<close> or \<open>d.ddde-n\<close> outside. The digits are these of the decimal that the number
  prints as: \<open>frac_len\<close> counts the fraction digits of a rational and stops after 30 of them
  (a double prints at most 17 significant digits, so at most 23 fraction digits in plain
  notation); a rational with more fraction digits than that, or with no finite decimal
  expansion, is the print of no double, and its rendering is set to \<open>NaN\<close>.
\<close>

fun frac_len :: "nat \<Rightarrow> rat \<Rightarrow> nat option" where
  "frac_len 0 x = None"
| "frac_len (Suc fuel) x =
     (if of_int \<lfloor>x\<rfloor> = x then Some 0 else map_option Suc (frac_len fuel (x * 10)))"

definition pad_zeros :: "nat \<Rightarrow> string \<Rightarrow> string" where
  "pad_zeros n s = replicate (n - length s) (CHR ''0'') @ s"

definition decimal_string :: "rat \<Rightarrow> string" where
  "decimal_string q =
     (case frac_len 30 q of
        None \<Rightarrow> ''NaN''
      | Some f \<Rightarrow>
          let m = nat \<lfloor>q * 10 ^ f\<rfloor> in
          string_of_nat (m div 10 ^ f)
          @ (if f = 0 then [] else ''.'' @ pad_zeros f (string_of_nat (m mod 10 ^ f))))"

fun count_div10 :: "nat \<Rightarrow> rat \<Rightarrow> nat" where
  "count_div10 0 x = 0"
| "count_div10 (Suc fuel) x = (if x < 10 then 0 else Suc (count_div10 fuel (x / 10)))"

fun count_mul10 :: "nat \<Rightarrow> rat \<Rightarrow> nat" where
  "count_mul10 0 x = 0"
| "count_mul10 (Suc fuel) x = (if 1 \<le> x then 0 else Suc (count_mul10 fuel (x * 10)))"

definition positive_toString :: "rat \<Rightarrow> string" where
  "positive_toString q =
     (if 1 / 10 ^ 6 \<le> q \<and> q < 10 ^ 21 then decimal_string q
      else if 10 ^ 21 \<le> q then
        (let e = count_div10 400 q in decimal_string (q / 10 ^ e) @ ''e+'' @ string_of_nat e)
      else
        (let e = count_mul10 400 q in decimal_string (q * 10 ^ e) @ ''e-'' @ string_of_nat e))"

definition number_toString :: "number \<Rightarrow> string" where
  "number_toString n =
     (case n of
        NaN \<Rightarrow> ''NaN''
      | PosInfinity \<Rightarrow> ''Infinity''
      | NegInfinity \<Rightarrow> ''-Infinity''
      | Finite q \<Rightarrow>
          if q = 0 then ''0''
          else if q < 0 then ''-'' @ positive_toString (- q)
          else positive_toString q)"

text \<open>
  Modelled from the spec: \<open>ethers.parseUnits\<close> belongs to the ethers library, which is not
  part of the sources. The spec: the "amount is fixed-point, token-unit-scaled (18 decimals)
  before any on-chain use". The library reads a string made of an optional minus sign,
  decimal digits, an optional point and decimal digits, with at least one digit in all; it
  pads the fraction with zeros to \<open>decimals\<close> digits, refuses a fraction with a non-zero digit
  beyond them, and reads the sign, the whole part and the padded fraction as one integer,
  which must fit 512 signed bits. It throws on any other string (\<open>None\<close>).
\<close>

definition is_digit :: "char \<Rightarrow> bool" where
  "is_digit c = (c \<in> set ''0123456789'')"

definition digit_value :: "char \<Rightarrow> nat" where
  "digit_value c = of_char c - 48"

definition nat_of_digits :: "string \<Rightarrow> nat" where
  "nat_of_digits ds = foldl (\<lambda>a c. 10 * a + digit_value c) 0 ds"

definition parseUnits :: "string \<Rightarrow> nat \<Rightarrow> int option" where
  "parseUnits str decimals =
     (let negative = (str \<noteq> [] \<and> hd str = CHR ''-'');
          unsigned = (if negative then tl str else str);
          whole = takeWhile is_digit unsigned;
          rest = dropWhile is_digit unsigned;
          rest' = (if rest \<noteq> [] \<and> hd rest = CHR ''.'' then tl rest else rest);
          decimal = takeWhile is_digit rest';
          trailing = dropWhile is_digit rest'
      in if trailing \<noteq> [] \<or> (whole = [] \<and> decimal = []) then None
         else if \<not> list_all (\<lambda>c. c = CHR ''0'') (drop decimals decimal) then None
         else
           let val = int (nat_of_digits (whole @ take decimals (decimal @ replicate decimals (CHR ''0''))));
               val' = (if negative then - val else val)
           in if val' < - (2 ^ 511) \<or> 2 ^ 511 \<le> val' then None else Some val')"

text \<open>\<open>toWei(amount)\<close> is \<open>ethers.parseUnits(amount.toString(), 18)\<close>.\<close>

definition toWei :: "number \<Rightarrow> int option" where
  "toWei amount = parseUnits (number_toString amount) 18"

subsection \<open>The request builder\<close>

text \<open>
  What the builder takes from outside this file, as parameters: the configuration constants
  of \<^verbatim>\<open>./config\<close> and the address parsing of the ABI coder (\<open>None\<close> when the string is not
  an address and the coder throws).
\<close>

record builder_env =
  KERNEL_ID :: string
  ENTRY_ID :: string
  ACCESS_TOKEN :: string
  getAddress :: "string \<Rightarrow> address option"

text \<open>
  The clock and the random source, read once per call: \<open>Date.now()\<close>,
  \<open>new Date().toISOString()\<close> and \<open>Math.random().toString(36)\<close>.
\<close>

record ambient =
  Date_now :: nat
  Date_toISOString :: string
  Math_random_toString36 :: string

text \<open>
  Modelled from the spec: \<open>abiCoder.encode\<close> and \<open>abiCoder.decode\<close> belong to the ethers
  library, which is not part of the sources. The spec: the builder produces "an ABI-encoded
  parameter blob \<open>encode(recipientAddress, amountInTokenUnits)\<close>" that "must decode back to
  exactly the same (recipient, amount) pair". By the contract ABI an address and a
  \<open>uint256\<close> are one 32-byte big-endian word each; the encoder refuses a string that is not an
  address and a value outside \<open>uint256\<close>; the decoder refuses fewer than 64 bytes and an
  address word above 160 bits. A string is encoded in the tail: the head holds its offset,
  the tail its length and its bytes padded with zeros to a multiple of 32.
\<close>

definition abiCoder_encode_address_uint256 :: "builder_env \<Rightarrow> string \<Rightarrow> int \<Rightarrow> js_error + bytes" where
  "abiCoder_encode_address_uint256 env recipient wei =
     (case getAddress env recipient of
        None \<Rightarrow> Inl LibraryError
      | Some a \<Rightarrow>
          if wei < 0 \<or> 2 ^ 256 \<le> wei then Inl LibraryError
          else Inr (abi_encode_address a @ abi_encode_uint256 (word_of_int wei)))"

definition abiCoder_decode_address_uint256 :: "bytes \<Rightarrow> (address \<times> int) option" where
  "abiCoder_decode_address_uint256 bs =
     (if length bs < 64 then None
      else
        let a = be_nat (take 32 bs);
            v = be_nat (take 32 (drop 32 bs))
        in if a < 2 ^ 160 then Some (of_nat a, int v) else None)"

definition abiCoder_encode_string_uint256_address ::
  "builder_env \<Rightarrow> string \<Rightarrow> int \<Rightarrow> string \<Rightarrow> js_error + bytes" where
  "abiCoder_encode_string_uint256_address env s wei addr =
     (if wei < 0 \<or> 2 ^ 256 \<le> wei then Inl LibraryError
      else
        (case getAddress env addr of
           None \<Rightarrow> Inl LibraryError
         | Some a \<Rightarrow>
             Inr (be_bytes 32 96 @ abi_encode_uint256 (word_of_int wei) @ abi_encode_address a
                  @ be_bytes 32 (length s) @ bytes_of s
                  @ replicate ((32 - length s mod 32) mod 32) 0)))"

text \<open>
  The request body that both builders write as an object literal; they differ in the amount
  of \<open>transactionInfo\<close> only, which \<open>executeTokenTransfer\<close> writes as the constant 0.5 and
  \<open>executeKrnl\<close> as the transaction amount.
\<close>

definition attestationBody :: "string \<Rightarrow> string \<Rightarrow> jsvalue \<Rightarrow> jsvalue" where
  "attestationBody uniqueTransactionId transactionDate' amount =
     JObj [
       (''customerId'', JStr ''78d29773-8aa6-4b33-aa53-2ffca3adbe7e''),
       (''externalTransactionId'', JStr uniqueTransactionId),
       (''transactionDate'', JStr transactionDate'),
       (''transactionType'', JStr ''crypto''),
       (''transactionSubType'', JStr ''wallet transfer''),
       (''transactionInfo'', JObj [
          (''direction'', JStr ''IN''),
          (''currencyCode'', JStr ''ETH''),
          (''blockchain'', JStr ''eip155''),
          (''chainId'', JStr ''1''),
          (''hash'', JStr ''0x89c195a8b61fb201ce1fb31c6c5c28d3915d49bbb83b86d634f5646e02d6b323''),
          (''amount'', amount),
          (''fees'', JObj [
             (''networkFeeAmount'', JNum (Finite (2 / 1000))),
             (''platformFeeAmount'', JNum (Finite (1 / 1000))),
             (''networkFeeCurrencyCode'', JStr ''ETH''),
             (''platformFeeCurrencyCode'', JStr ''ETH'')])]),
       (''originator'', JObj [
          (''type'', JStr ''individual''),
          (''name'', JStr ''Bob Smith''),
          (''transactionMethod'', JObj [
             (''type'', JStr ''crypto''),
             (''accountId'', JStr ''0x7B5f55aE4f1Cb8a6bE0a9cD1FeE8F8C4cCfF9a3D'')])]),
       (''beneficiary'', JObj [
          (''type'', JStr ''individual''),
          (''name'', JStr ''Alice Carter''),
          (''transactionMethod'', JObj [
             (''type'', JStr ''crypto''),
             (''accountId'', JStr ''0x4E6f1cB8C7A2E3A2DeAb69c4e0A9F798D6FcF8B8'')]),
          (''institution'', JObj [
             (''name'', JStr ''Binance''),
             (''code'', JStr ''BINANCE123'')])])]"

definition kernelRequestData :: "string \<Rightarrow> string \<Rightarrow> jsvalue \<Rightarrow> jsvalue" where
  "kernelRequestData senderAddress kernelId' body =
     JObj [
       (''senderAddress'', JStr senderAddress),
       (''kernelPayload'', JObj [
          (kernelId', JObj [
             (''parameters'', JObj [
                (''query'', JObj [(''waitForWebhook'', JStr ''true'')]),
                (''header'', JObj []),
                (''body'', body)])])])]"

text \<open>
  The one network call of a builder: \<open>krnlProvider.executeKernels(ENTRY_ID, ACCESS_TOKEN,
  kernelRequestData, functionParams)\<close>. A builder returns either the error it throws before
  the call, or the call it issues.
\<close>

record kernel_call =
  entryId :: string
  accessToken :: string
  requestData :: jsvalue
  functionParams :: bytes

definition uniqueTransactionId_generated :: "ambient \<Rightarrow> string" where
  "uniqueTransactionId_generated amb =
     ''tx-'' @ string_of_nat (Date_now amb) @ ''-'' @ substring (Math_random_toString36 amb) 2 10"

definition executeTokenTransfer ::
  "builder_env \<Rightarrow> ambient \<Rightarrow> string option \<Rightarrow> string option \<Rightarrow> number \<Rightarrow> js_error + kernel_call" where
  "executeTokenTransfer env amb sender recipient amount =
     (if \<not> string_truthy sender \<or> \<not> string_truthy recipient
      then Inl (Error ''Sender and recipient addresses are required'')
      else if \<not> number_truthy amount \<or> number_le_zero amount
      then Inl (Error ''Amount must be greater than 0'')
      else
        let kernelId' = KERNEL_ID env;
            uniqueTransactionId = uniqueTransactionId_generated amb;
            transactionAmount = amount;
            kernelRequestData' = kernelRequestData (the sender) kernelId'
              (attestationBody uniqueTransactionId (Date_toISOString amb) (JNum (Finite (5 / 10))))
        in
          (case toWei transactionAmount of
             None \<Rightarrow> Inl LibraryError
           | Some wei \<Rightarrow>
               (case abiCoder_encode_address_uint256 env (the recipient) wei of
                  Inl e \<Rightarrow> Inl e
                | Inr functionParams' \<Rightarrow>
                    Inr \<lparr> entryId = ENTRY_ID env, accessToken = ACCESS_TOKEN env,
                          requestData = kernelRequestData', functionParams = functionParams' \<rparr>)))"

text \<open>
  \<open>executeKrnl\<close> takes \<open>transactionData: any\<close>; here it is absent or an object with the
  properties the function reads and writes, each absent or of the type the function uses it at.
  The function also writes the id, the amount and the address back into the caller's object:
  the updated object is returned with the call.
\<close>

record transactionData =
  td_externalTransactionId :: "string option"
  td_amount :: "number option"
  td_transactionInfo :: "(string \<times> jsvalue) list option"
  td_address :: "string option"

definition executeKrnl ::
  "builder_env \<Rightarrow> ambient \<Rightarrow> string option \<Rightarrow> transactionData option \<Rightarrow> string option
    \<Rightarrow> js_error + (transactionData \<times> kernel_call)" where
  "executeKrnl env amb address' transactionData' customKernelId =
     (if \<not> string_truthy address' then Inl (Error ''Wallet address is required'')
      else if transactionData' = None
              \<or> \<not> string_truthy (td_externalTransactionId (the transactionData'))
      then Inl (Error ''Transaction data with externalTransactionId is required'')
      else
        let td = the transactionData';
            kernelId' = (if string_truthy customKernelId then the customKernelId else KERNEL_ID env);
            uniqueTransactionId =
              (if string_truthy (td_externalTransactionId td) then the (td_externalTransactionId td)
               else uniqueTransactionId_generated amb);
            transactionAmount =
              (case td_amount td of
                 None \<Rightarrow> Finite (1 / 10)
               | Some n \<Rightarrow> if number_truthy n then n else Finite (1 / 10));
            kernelRequestData' = kernelRequestData (the address') kernelId'
              (attestationBody uniqueTransactionId (Date_toISOString amb) (JNum transactionAmount));
            td' = td\<lparr> td_externalTransactionId := Some uniqueTransactionId,
                       td_transactionInfo := Some (AList.update ''amount'' (JNum transactionAmount)
                          (case td_transactionInfo td of None \<Rightarrow> [] | Some info \<Rightarrow> info)),
                       td_address := address' \<rparr>
        in
          (case toWei transactionAmount of
             None \<Rightarrow> Inl LibraryError
           | Some wei \<Rightarrow>
               (case abiCoder_encode_string_uint256_address env uniqueTransactionId wei (the address') of
                  Inl e \<Rightarrow> Inl e
                | Inr functionParams' \<Rightarrow>
                    Inr (td', \<lparr> entryId = ENTRY_ID env, accessToken = ACCESS_TOKEN env,
                               requestData = kernelRequestData', functionParams = functionParams' \<rparr>))))"

text \<open>The \<open>body\<close> of a request, under \<open>kernelPayload[kernelId].parameters\<close>.\<close>

definition request_body :: "string \<Rightarrow> jsvalue \<Rightarrow> jsvalue" where
  "request_body kernelId' req =
     get_prop (get_prop (get_prop (get_prop req ''kernelPayload'') kernelId') ''parameters'') ''body''"

text \<open>
  A small environment on which the builders can be evaluated: it knows the addresses 1 and 2.
\<close>

definition toy_builder_env :: builder_env where
  "toy_builder_env =
     \<lparr> KERNEL_ID = ''1657'', ENTRY_ID = ''entry-1'', ACCESS_TOKEN = ''token-1'',
       getAddress = (\<lambda>s. if s = ''0x0000000000000000000000000000000000000001'' then Some 1
                          else if s = ''0x0000000000000000000000000000000000000002'' then Some 2
                          else None) \<rparr>"

definition toy_ambient :: "string \<Rightarrow> ambient" where
  "toy_ambient random36 =
     \<lparr> Date_now = 1700000000000, Date_toISOString = ''2023-11-14T22:13:20.000Z'',
       Math_random_toString36 = random36 \<rparr>"


section \<open>Properties of the gate\<close>

subsection \<open>The loop and the hash\<close>

lemma find_holds: "find P xs = Some x \<Longrightarrow> P x"
  by (auto simp: find_Some_iff)

lemma loop_find:
  "checkTransferAllowed_loop ev ctx rs from to amount st =
     (case find (\<lambda>r. kernelId r = 1657) rs of
        None \<Rightarrow> Inr (st, False)
      | Some r \<Rightarrow> checkTransferAllowed_loop ev ctx [r] from to amount st)"
  by (induction rs) auto

lemma loop_no_entry:
  "find (\<lambda>r. kernelId r = 1657) rs = None \<Longrightarrow>
   checkTransferAllowed_loop ev ctx rs from to amount st = Inr (st, False)"
  by (subst loop_find) simp

lemma loop_undecodable:
  "find (\<lambda>r. kernelId r = 1657) rs = Some r \<Longrightarrow> abi_decode_WebhookResponse ev (result r) = None \<Longrightarrow>
   checkTransferAllowed_loop ev ctx rs from to amount st = Inl AbiDecodeFailure"
  by (frule find_holds) (subst loop_find, simp)

lemma loop_entry:
  "find (\<lambda>r. kernelId r = 1657) rs = Some r \<Longrightarrow>
   abi_decode_WebhookResponse ev (result r) = Some response \<Longrightarrow>
   checkTransferAllowed_loop ev ctx rs from to amount st =
     Inr (st\<lparr>transferAssessments := (transferAssessments st)
              (keccak256 ev (abi_encodePacked4 from to amount (block_timestamp ctx)) := response),
            events := events st @
              [TransferAssessed from to amount (status (payload response))
                 (keccak256 ev (bytes_of (status (payload response))) = keccak256 ev (bytes_of ''approved''))
                 (block_timestamp ctx)]\<rparr>,
          keccak256 ev (bytes_of (status (payload response))) = keccak256 ev (bytes_of ''approved''))"
  by (frule find_holds) (subst loop_find, simp add: Let_def)

lemma unat_byte_of_char: "unat (of_nat (of_char c) :: 8 word) = of_char c"
  by (simp add: unat_of_nat)

lemma bytes_of_inj: "bytes_of s = bytes_of t \<Longrightarrow> s = t"
proof (induction s arbitrary: t)
  case Nil
  then show ?case by (simp add: bytes_of_def)
next
  case (Cons c s)
  then obtain d t' where t: "t = d # t'" by (cases t) (auto simp: bytes_of_def)
  from Cons.prems t have h: "(of_nat (of_char c) :: 8 word) = of_nat (of_char d)"
    and r: "bytes_of s = bytes_of t'"
    by (simp_all add: bytes_of_def)
  from h have "unat (of_nat (of_char c) :: 8 word) = unat (of_nat (of_char d) :: 8 word)"
    by (rule arg_cong)
  then have "(of_char c :: nat) = of_char d" by (simp only: unat_byte_of_char)
  then have "c = d" by simp
  with Cons.IH [OF r] t show ?case by simp
qed

lemma hash_approved_iff:
  "approved_hash_unique ev \<Longrightarrow>
   (keccak256 ev (bytes_of s) = keccak256 ev (bytes_of ''approved'')) = (s = ''approved'')"
  unfolding approved_hash_unique_def by blast

lemma toy_evm_approved_hash_unique: "approved_hash_unique toy_evm"
  unfolding approved_hash_unique_def
proof (intro allI impI)
  fix s
  assume h: "keccak256 toy_evm (bytes_of s) = keccak256 toy_evm (bytes_of ''approved'')"
  have "bytes_of s = bytes_of ''approved''"
  proof (rule ccontr)
    assume "bytes_of s \<noteq> bytes_of ''approved''"
    then have "toy_keccak256 (bytes_of s) \<noteq> 1" by (simp add: toy_keccak256_def)
    moreover have "toy_keccak256 (bytes_of ''approved'') = 1" by (simp add: toy_keccak256_def)
    ultimately show False using h by (simp add: toy_evm_def)
  qed
  then show "s = ''approved''" by (rule bytes_of_inj)
qed

lemmas toy_defs = toy_evm_def toy_context_def toy_payload_def toy_decode_WebhookResponse_def
  testWebhookResponse_def testWebhookPayload_def toy_keccak256_def bytes_of_def toy_state_def

lemmas call_defs = execute_def transferWithKRNL_def transferFromWithKRNL_def checkTransferAllowed_def
  ERC20_transfer_def ERC20_spendAllowance_def

subsection \<open>When the gated entry points succeed, and when they are denied\<close>

lemma transferWithKRNL_success_iff:
  assumes uniq: "approved_hash_unique ev"
    and rs: "abi_decode_KernelResponses ev (kernelResponses krnlPayload) = Some rs"
  shows "(\<exists>st'. transferWithKRNL ev ctx to amount krnlPayload st = Inr (st', True)) \<longleftrightarrow>
           onlyAuthorized ev (msg_sender ctx) krnlPayload (abi_encode_address to @ abi_encode_uint256 amount)
         \<and> to \<noteq> 0 \<and> msg_sender ctx \<noteq> 0
         \<and> (\<exists>r response. find (\<lambda>r. kernelId r = 1657) rs = Some r
               \<and> abi_decode_WebhookResponse ev (result r) = Some response
               \<and> status (payload response) = ''approved'')
         \<and> amount \<le> balances st (msg_sender ctx)"
proof (cases "find (\<lambda>r. kernelId r = 1657) rs")
  case None
  then show ?thesis
    by (simp add: transferWithKRNL_def checkTransferAllowed_def rs loop_no_entry)
next
  case (Some r)
  note r = this
  show ?thesis
  proof (cases "abi_decode_WebhookResponse ev (result r)")
    case None
    then show ?thesis
      by (simp add: transferWithKRNL_def checkTransferAllowed_def rs r loop_undecodable [OF r])
  next
    case (Some response)
    then show ?thesis
      by (auto simp: transferWithKRNL_def checkTransferAllowed_def rs r loop_entry [OF r]
            hash_approved_iff [OF uniq] ERC20_transfer_def Let_def not_less split: if_splits)
  qed
qed

lemma transferFromWithKRNL_success_iff:
  assumes uniq: "approved_hash_unique ev"
    and rs: "abi_decode_KernelResponses ev (kernelResponses krnlPayload) = Some rs"
  shows "(\<exists>st'. transferFromWithKRNL ev ctx from to amount krnlPayload st = Inr (st', True)) \<longleftrightarrow>
           onlyAuthorized ev (msg_sender ctx) krnlPayload
             (abi_encode_address from @ abi_encode_address to @ abi_encode_uint256 amount)
         \<and> from \<noteq> 0 \<and> to \<noteq> 0
         \<and> (\<exists>r response. find (\<lambda>r. kernelId r = 1657) rs = Some r
               \<and> abi_decode_WebhookResponse ev (result r) = Some response
               \<and> status (payload response) = ''approved'')
         \<and> (allowances st from (msg_sender ctx) = - 1
              \<or> amount \<le> allowances st from (msg_sender ctx) \<and> msg_sender ctx \<noteq> 0)
         \<and> amount \<le> balances st from"
proof (cases "find (\<lambda>r. kernelId r = 1657) rs")
  case None
  then show ?thesis
    by (simp add: transferFromWithKRNL_def checkTransferAllowed_def rs loop_no_entry)
next
  case (Some r)
  note r = this
  show ?thesis
  proof (cases "abi_decode_WebhookResponse ev (result r)")
    case None
    then show ?thesis
      by (simp add: transferFromWithKRNL_def checkTransferAllowed_def rs r loop_undecodable [OF r])
  next
    case (Some response)
    then show ?thesis
      by (auto simp: transferFromWithKRNL_def checkTransferAllowed_def rs r loop_entry [OF r]
            hash_approved_iff [OF uniq] ERC20_transfer_def ERC20_spendAllowance_def Let_def not_less
            split: if_splits)
  qed
qed

lemma checkTransferAllowed_denied:
  assumes uniq: "approved_hash_unique ev"
    and rs: "abi_decode_KernelResponses ev (kernelResponses krnlPayload) = Some rs"
    and no: "find (\<lambda>r. kernelId r = 1657) rs = None
             \<or> (\<exists>r response. find (\<lambda>r. kernelId r = 1657) rs = Some r
                   \<and> abi_decode_WebhookResponse ev (result r) = Some response
                   \<and> status (payload response) \<noteq> ''approved'')"
  shows "\<exists>st'. checkTransferAllowed ev ctx krnlPayload from to amount st = Inr (st', False)"
  using no
proof
  assume "find (\<lambda>r. kernelId r = 1657) rs = None"
  then show ?thesis by (simp add: checkTransferAllowed_def rs loop_no_entry)
next
  assume "\<exists>r response. find (\<lambda>r. kernelId r = 1657) rs = Some r
            \<and> abi_decode_WebhookResponse ev (result r) = Some response
            \<and> status (payload response) \<noteq> ''approved''"
  then obtain r response where r: "find (\<lambda>r. kernelId r = 1657) rs = Some r"
    and d: "abi_decode_WebhookResponse ev (result r) = Some response"
    and s: "status (payload response) \<noteq> ''approved''" by blast
  from s show ?thesis
    by (simp add: checkTransferAllowed_def rs loop_entry [OF r d] hash_approved_iff [OF uniq])
qed

lemma transferWithKRNL_denied_message:
  assumes uniq: "approved_hash_unique ev"
    and rs: "abi_decode_KernelResponses ev (kernelResponses krnlPayload) = Some rs"
    and auth: "onlyAuthorized ev (msg_sender ctx) krnlPayload
                 (abi_encode_address to @ abi_encode_uint256 amount)"
    and nz: "to \<noteq> 0"
    and no: "find (\<lambda>r. kernelId r = 1657) rs = None
             \<or> (\<exists>r response. find (\<lambda>r. kernelId r = 1657) rs = Some r
                   \<and> abi_decode_WebhookResponse ev (result r) = Some response
                   \<and> status (payload response) \<noteq> ''approved'')"
  shows "transferWithKRNL ev ctx to amount krnlPayload st
           = Inl (Revert ''Transfer denied due to risk assessment'')"
  using checkTransferAllowed_denied [OF uniq rs no, of ctx "msg_sender ctx" "to" amount st] auth nz
  by (auto simp: transferWithKRNL_def)

lemma transferFromWithKRNL_denied_message:
  assumes uniq: "approved_hash_unique ev"
    and rs: "abi_decode_KernelResponses ev (kernelResponses krnlPayload) = Some rs"
    and auth: "onlyAuthorized ev (msg_sender ctx) krnlPayload
                 (abi_encode_address from @ abi_encode_address to @ abi_encode_uint256 amount)"
    and nz: "from \<noteq> 0" "to \<noteq> 0"
    and no: "find (\<lambda>r. kernelId r = 1657) rs = None
             \<or> (\<exists>r response. find (\<lambda>r. kernelId r = 1657) rs = Some r
                   \<and> abi_decode_WebhookResponse ev (result r) = Some response
                   \<and> status (payload response) \<noteq> ''approved'')"
  shows "transferFromWithKRNL ev ctx from to amount krnlPayload st
           = Inl (Revert ''Transfer denied due to risk assessment'')"
  using checkTransferAllowed_denied [OF uniq rs no, of ctx "from" "to" amount st] auth nz
  by (auto simp: transferFromWithKRNL_def)

lemma transferWithKRNL_success:
  assumes ok: "transferWithKRNL ev ctx to amount krnlPayload st = Inr (st', b)"
  shows "\<exists>rs r response.
           abi_decode_KernelResponses ev (kernelResponses krnlPayload) = Some rs
         \<and> find (\<lambda>r. kernelId r = 1657) rs = Some r
         \<and> abi_decode_WebhookResponse ev (result r) = Some response
         \<and> amount \<le> balances st (msg_sender ctx)
         \<and> balances st' = ((balances st)(msg_sender ctx := balances st (msg_sender ctx) - amount))
               (to := ((balances st)(msg_sender ctx := balances st (msg_sender ctx) - amount)) to + amount)
         \<and> events st' = events st @
               [TransferAssessed (msg_sender ctx) to amount (status (payload response)) True
                  (block_timestamp ctx),
                Transfer (msg_sender ctx) to amount]
         \<and> transferAssessments st' = (transferAssessments st)
               (keccak256 ev (abi_encodePacked4 (msg_sender ctx) to amount (block_timestamp ctx)) := response)"
proof -
  from ok obtain rs where rs: "abi_decode_KernelResponses ev (kernelResponses krnlPayload) = Some rs"
    by (cases "abi_decode_KernelResponses ev (kernelResponses krnlPayload)")
       (auto simp: transferWithKRNL_def checkTransferAllowed_def split: if_splits)
  from ok rs obtain r where r: "find (\<lambda>r. kernelId r = 1657) rs = Some r"
    by (cases "find (\<lambda>r. kernelId r = 1657) rs")
       (auto simp: transferWithKRNL_def checkTransferAllowed_def loop_no_entry split: if_splits)
  from ok rs r obtain response where d: "abi_decode_WebhookResponse ev (result r) = Some response"
    by (cases "abi_decode_WebhookResponse ev (result r)")
       (auto simp: transferWithKRNL_def checkTransferAllowed_def loop_undecodable split: if_splits)
  from ok have "amount \<le> balances st (msg_sender ctx)
      \<and> balances st' = ((balances st)(msg_sender ctx := balances st (msg_sender ctx) - amount))
               (to := ((balances st)(msg_sender ctx := balances st (msg_sender ctx) - amount)) to + amount)
      \<and> events st' = events st @
               [TransferAssessed (msg_sender ctx) to amount (status (payload response)) True
                  (block_timestamp ctx),
                Transfer (msg_sender ctx) to amount]
      \<and> transferAssessments st' = (transferAssessments st)
               (keccak256 ev (abi_encodePacked4 (msg_sender ctx) to amount (block_timestamp ctx)) := response)"
    by (auto simp: transferWithKRNL_def checkTransferAllowed_def rs loop_entry [OF r d]
          ERC20_transfer_def Let_def not_less split: if_splits)
  with rs r d show ?thesis by blast
qed

subsection \<open>The claims on the gate\<close>

text \<open>
  C1, as the code has it. Under a hash with no collision on "approved", and when the kernel
  responses decode: \<open>transferWithKRNL\<close> performs the transfer exactly when the call is
  authorized, the addresses are non-zero, the \<^emph>\<open>first\<close> entry with kernelId 1657 decodes to a
  response whose status is "approved", and the sender's balance covers the amount;
  \<open>transferFromWithKRNL\<close> likewise, with the allowance of the caller. When there is no entry
  with kernelId 1657, or the first one decodes to any other status, an authorized call with
  non-zero addresses reverts with "Transfer denied due to risk assessment".
\<close>

theorem gated_transfer_performed_iff_first_entry_approved:
  assumes uniq: "approved_hash_unique ev"
    and rs: "abi_decode_KernelResponses ev (kernelResponses krnlPayload) = Some rs"
  shows
    "((\<exists>st'. transferWithKRNL ev ctx to amount krnlPayload st = Inr (st', True)) \<longleftrightarrow>
         onlyAuthorized ev (msg_sender ctx) krnlPayload (abi_encode_address to @ abi_encode_uint256 amount)
       \<and> to \<noteq> 0 \<and> msg_sender ctx \<noteq> 0
       \<and> (\<exists>r response. find (\<lambda>r. kernelId r = 1657) rs = Some r
             \<and> abi_decode_WebhookResponse ev (result r) = Some response
             \<and> status (payload response) = ''approved'')
       \<and> amount \<le> balances st (msg_sender ctx))
   \<and> ((\<exists>st'. transferFromWithKRNL ev ctx from to amount krnlPayload st = Inr (st', True)) \<longleftrightarrow>
         onlyAuthorized ev (msg_sender ctx) krnlPayload
           (abi_encode_address from @ abi_encode_address to @ abi_encode_uint256 amount)
       \<and> from \<noteq> 0 \<and> to \<noteq> 0
       \<and> (\<exists>r response. find (\<lambda>r. kernelId r = 1657) rs = Some r
             \<and> abi_decode_WebhookResponse ev (result r) = Some response
             \<and> status (payload response) = ''approved'')
       \<and> (allowances st from (msg_sender ctx) = - 1
            \<or> amount \<le> allowances st from (msg_sender ctx) \<and> msg_sender ctx \<noteq> 0)
       \<and> amount \<le> balances st from)
   \<and> ((find (\<lambda>r. kernelId r = 1657) rs = None
         \<or> (\<exists>r response. find (\<lambda>r. kernelId r = 1657) rs = Some r
               \<and> abi_decode_WebhookResponse ev (result r) = Some response
               \<and> status (payload response) \<noteq> ''approved'')) \<longrightarrow>
        (onlyAuthorized ev (msg_sender ctx) krnlPayload (abi_encode_address to @ abi_encode_uint256 amount)
           \<and> to \<noteq> 0 \<longrightarrow>
         transferWithKRNL ev ctx to amount krnlPayload st
           = Inl (Revert ''Transfer denied due to risk assessment''))
      \<and> (onlyAuthorized ev (msg_sender ctx) krnlPayload
             (abi_encode_address from @ abi_encode_address to @ abi_encode_uint256 amount)
           \<and> from \<noteq> 0 \<and> to \<noteq> 0 \<longrightarrow>
         transferFromWithKRNL ev ctx from to amount krnlPayload st
           = Inl (Revert ''Transfer denied due to risk assessment'')))"
  using transferWithKRNL_success_iff [OF uniq rs, of ctx "to" amount st]
    transferFromWithKRNL_success_iff [OF uniq rs, of ctx "from" "to" amount st]
    transferWithKRNL_denied_message [OF uniq rs, of ctx "to" amount st]
    transferFromWithKRNL_denied_message [OF uniq rs, of ctx "from" "to" amount st]
  by blast

text \<open>
  The theorem at work on the example chain: account 1 holds 100 tokens and sends 5 to
  account 2; with the approved decision the transfer is performed, with the rejected one
  the call reverts with the message.
\<close>

theorem gated_transfer_performed_iff_first_entry_approved_witness:
  "(\<exists>st'. transferWithKRNL toy_evm (toy_context 1) 2 5 (toy_payload [1]) toy_state = Inr (st', True))
   \<and> transferWithKRNL toy_evm (toy_context 1) 2 5 (toy_payload [2]) toy_state
       = Inl (Revert ''Transfer denied due to risk assessment'')"
proof -
  let ?r1 = "\<lparr> kernelId = 1657, result = [1], err = [] \<rparr>"
  let ?r2 = "\<lparr> kernelId = 1657, result = [2], err = [] \<rparr>"
  let ?approved =
    "testWebhookResponse ''approved'' ''Low'' ''Transaction approved after risk assessment'' 15 ''tx-1''"
  let ?rejected =
    "testWebhookResponse ''rejected'' ''High'' ''High risk indicators detected - transaction blocked'' 85 ''tx-2''"
  have rs1: "abi_decode_KernelResponses toy_evm (kernelResponses (toy_payload [1])) = Some [?r1]"
    by (simp add: toy_evm_def toy_payload_def)
  have rs2: "abi_decode_KernelResponses toy_evm (kernelResponses (toy_payload [2])) = Some [?r2]"
    by (simp add: toy_evm_def toy_payload_def)
  have a: "onlyAuthorized toy_evm (msg_sender (toy_context 1)) kp ps" for kp ps
    by (simp add: toy_evm_def)
  have ok: "find (\<lambda>r. kernelId r = 1657) [?r1] = Some ?r1
      \<and> abi_decode_WebhookResponse toy_evm (result ?r1) = Some ?approved
      \<and> status (payload ?approved) = ''approved''"
    by (simp add: toy_defs)
  have no: "find (\<lambda>r. kernelId r = 1657) [?r2] = Some ?r2
      \<and> abi_decode_WebhookResponse toy_evm (result ?r2) = Some ?rejected
      \<and> status (payload ?rejected) \<noteq> ''approved''"
    by (simp add: toy_defs)
  have bal: "(2::address) \<noteq> 0 \<and> msg_sender (toy_context 1) \<noteq> 0
      \<and> (5::uint256) \<le> balances toy_state (msg_sender (toy_context 1))"
    by (simp add: toy_defs)
  from gated_transfer_performed_iff_first_entry_approved
         [OF toy_evm_approved_hash_unique rs1, of "toy_context 1" 2 5 toy_state 1] a ok bal
  have 1: "\<exists>st'. transferWithKRNL toy_evm (toy_context 1) 2 5 (toy_payload [1]) toy_state = Inr (st', True)"
    by blast
  from gated_transfer_performed_iff_first_entry_approved
         [OF toy_evm_approved_hash_unique rs2, of "toy_context 1" 2 5 toy_state 1] a no bal
  have 2: "transferWithKRNL toy_evm (toy_context 1) 2 5 (toy_payload [2]) toy_state
       = Inl (Revert ''Transfer denied due to risk assessment'')"
    by blast
  from 1 2 show ?thesis by blast
qed

text \<open>
  C1 as stated fails: here the decoded array contains an entry with kernelId 1657 whose
  result decodes to status "approved", the call is authorized, the recipient is non-zero and
  the balance suffices, yet the call reverts with the denial message, because an earlier
  entry with kernelId 1657 says "rejected" and the loop returns at the first match.
\<close>

theorem approved_entry_behind_rejected_entry_is_denied:
  "abi_decode_KernelResponses toy_evm (kernelResponses (toy_payload [2, 1]))
     = Some [\<lparr> kernelId = 1657, result = [2], err = [] \<rparr>, \<lparr> kernelId = 1657, result = [1], err = [] \<rparr>]
   \<and> abi_decode_WebhookResponse toy_evm [1]
       = Some (testWebhookResponse ''approved'' ''Low'' ''Transaction approved after risk assessment'' 15 ''tx-1'')
   \<and> status (payload
        (testWebhookResponse ''approved'' ''Low'' ''Transaction approved after risk assessment'' 15 ''tx-1''))
       = ''approved''
   \<and> execute (transferWithKRNL toy_evm (toy_context 1) 2 5 (toy_payload [2, 1])) toy_state
       = (toy_state, Inl (Revert ''Transfer denied due to risk assessment''))"
  by (simp add: call_defs toy_defs Let_def)

text \<open>
  C2, as the code has it. After a successful \<open>transferWithKRNL(to, amount, krnlPayload)\<close> by a
  sender other than the recipient, in a state where the two balances together fit a
  \<open>uint256\<close> (as the total supply does): the sender's balance is lower by the amount and the
  recipient's higher by it; the call logged \<open>TransferAssessed(sender, to, amount, status, true,
  block.timestamp)\<close> for the decoded response of the first entry with kernelId 1657, followed
  by the \<open>Transfer\<close> event; and \<open>getTransferAssessment\<close> of the hash of the packed
  \<open>(sender, to, amount, block.timestamp)\<close> returns that response.
\<close>

theorem successful_transferWithKRNL_effects:
  assumes ok: "transferWithKRNL ev ctx to amount krnlPayload st = Inr (st', b)"
    and ne: "msg_sender ctx \<noteq> to"
    and nowrap: "unat (balances st (msg_sender ctx)) + unat (balances st to) < 2 ^ 256"
  shows "unat (balances st' (msg_sender ctx)) + unat amount = unat (balances st (msg_sender ctx))
       \<and> unat (balances st' to) = unat (balances st to) + unat amount
       \<and> (\<exists>rs r response.
             abi_decode_KernelResponses ev (kernelResponses krnlPayload) = Some rs
           \<and> find (\<lambda>r. kernelId r = 1657) rs = Some r
           \<and> abi_decode_WebhookResponse ev (result r) = Some response
           \<and> events st' = events st @
                [TransferAssessed (msg_sender ctx) to amount (status (payload response)) True
                   (block_timestamp ctx),
                 Transfer (msg_sender ctx) to amount]
           \<and> getTransferAssessment st'
                (keccak256 ev (abi_encodePacked4 (msg_sender ctx) to amount (block_timestamp ctx))) = response)"
proof -
  from transferWithKRNL_success [OF ok] obtain rs r response where
    rs: "abi_decode_KernelResponses ev (kernelResponses krnlPayload) = Some rs"
    and r: "find (\<lambda>r. kernelId r = 1657) rs = Some r"
    and d: "abi_decode_WebhookResponse ev (result r) = Some response"
    and le: "amount \<le> balances st (msg_sender ctx)"
    and bal: "balances st' = ((balances st)(msg_sender ctx := balances st (msg_sender ctx) - amount))
               (to := ((balances st)(msg_sender ctx := balances st (msg_sender ctx) - amount)) to + amount)"
    and evs: "events st' = events st @
               [TransferAssessed (msg_sender ctx) to amount (status (payload response)) True
                  (block_timestamp ctx),
                Transfer (msg_sender ctx) to amount]"
    and ta: "transferAssessments st' = (transferAssessments st)
               (keccak256 ev (abi_encodePacked4 (msg_sender ctx) to amount (block_timestamp ctx)) := response)"
    by blast
  from le have ule: "unat amount \<le> unat (balances st (msg_sender ctx))"
    by (simp add: word_le_nat_alt)
  from bal ne have s: "balances st' (msg_sender ctx) = balances st (msg_sender ctx) - amount"
    and t: "balances st' to = balances st to + amount" by auto
  have 1: "unat (balances st' (msg_sender ctx)) + unat amount = unat (balances st (msg_sender ctx))"
    using le ule by (simp add: s unat_sub)
  have "unat (balances st to) + unat amount < 2 ^ LENGTH(256)"
    using nowrap ule by simp
  then have 2: "unat (balances st' to) = unat (balances st to) + unat amount"
    by (simp only: t unat_add_lem)
  have 3: "getTransferAssessment st'
             (keccak256 ev (abi_encodePacked4 (msg_sender ctx) to amount (block_timestamp ctx))) = response"
    by (simp add: getTransferAssessment_def ta)
  from 1 2 3 rs r d evs show ?thesis by blast
qed

text \<open>
  The theorem at work: account 1 (100 tokens) sends 5 to account 2 (none) with the approved
  decision; afterwards they hold 95 and 5.
\<close>

theorem successful_transferWithKRNL_effects_witness:
  "\<exists>st'. transferWithKRNL toy_evm (toy_context 1) 2 5 (toy_payload [1]) toy_state = Inr (st', True)
     \<and> unat (balances st' 1) = 95 \<and> unat (balances st' 2) = 5"
proof -
  have "\<exists>st'. transferWithKRNL toy_evm (toy_context 1) 2 5 (toy_payload [1]) toy_state = Inr (st', True)"
    by (simp add: call_defs toy_defs Let_def)
  then obtain st' where
    ok: "transferWithKRNL toy_evm (toy_context 1) 2 5 (toy_payload [1]) toy_state = Inr (st', True)" ..
  have ne: "msg_sender (toy_context 1) \<noteq> 2" by (simp add: toy_context_def)
  have nowrap: "unat (balances toy_state (msg_sender (toy_context 1))) + unat (balances toy_state 2) < 2 ^ 256"
    by (simp add: toy_context_def toy_state_def)
  from successful_transferWithKRNL_effects [OF ok ne nowrap]
  have "unat (balances st' 1) + unat (5::uint256) = unat (balances toy_state 1)
      \<and> unat (balances st' 2) = unat (balances toy_state 2) + unat (5::uint256)"
    by (simp add: toy_context_def)
  then have "unat (balances st' 1) = 95 \<and> unat (balances st' 2) = 5"
    by (simp add: toy_state_def)
  with ok show ?thesis by blast
qed

text \<open>
  C2 as stated fails when the sender is the recipient: account 1 sends 5 tokens to itself,
  the call succeeds, and its balance is 100 before and after.
\<close>

theorem self_transfer_keeps_balance:
  "snd (execute (transferWithKRNL toy_evm (toy_context 1) 1 5 (toy_payload [1])) toy_state) = Inr True
   \<and> balances toy_state 1 = 100
   \<and> balances (fst (execute (transferWithKRNL toy_evm (toy_context 1) 1 5 (toy_payload [1])) toy_state)) 1
       = 100"
  by (simp add: call_defs toy_defs Let_def)

text \<open>
  C3. Under a hash with no collision on "approved": when the decision the gate decodes (the
  first entry with kernelId 1657) has a status other than "approved", \<open>transferWithKRNL\<close> and
  \<open>transferFromWithKRNL\<close> revert, and the state after the call is the state before it; in
  particular every balance is unchanged.
\<close>

theorem non_approved_decision_reverts_whole_call:
  assumes uniq: "approved_hash_unique ev"
    and rs: "abi_decode_KernelResponses ev (kernelResponses krnlPayload) = Some rs"
    and r: "find (\<lambda>r. kernelId r = 1657) rs = Some r"
    and resp: "abi_decode_WebhookResponse ev (result r) = Some response"
    and st: "status (payload response) \<noteq> ''approved''"
  shows "(\<exists>e. execute (transferWithKRNL ev ctx recipient amount krnlPayload) st = (st, Inl e))
       \<and> (\<exists>e. execute (transferFromWithKRNL ev ctx owner recipient amount krnlPayload) st = (st, Inl e))
       \<and> balances (fst (execute (transferWithKRNL ev ctx recipient amount krnlPayload) st)) = balances st
       \<and> balances (fst (execute (transferFromWithKRNL ev ctx owner recipient amount krnlPayload) st))
           = balances st"
proof -
  have denied: "\<exists>st'. checkTransferAllowed ev ctx krnlPayload a b amount st = Inr (st', False)" for a b
    using st by (simp add: checkTransferAllowed_def rs loop_entry [OF r resp] hash_approved_iff [OF uniq])
  have 1: "\<exists>e. transferWithKRNL ev ctx recipient amount krnlPayload st = Inl e"
    using denied [of "msg_sender ctx" recipient] by (auto simp: transferWithKRNL_def)
  have 2: "\<exists>e. transferFromWithKRNL ev ctx owner recipient amount krnlPayload st = Inl e"
    using denied [of owner recipient] by (auto simp: transferFromWithKRNL_def)
  from 1 2 show ?thesis by (auto simp: execute_def)
qed

text \<open>
  The theorem at work on the decision of the spec's example: status "rejected", risk level
  "High", risk score 85.
\<close>

theorem non_approved_decision_reverts_whole_call_witness:
  "(\<exists>e. execute (transferWithKRNL toy_evm (toy_context 1) 2 5 (toy_payload [2])) toy_state
          = (toy_state, Inl e))
   \<and> (\<exists>e. execute (transferFromWithKRNL toy_evm (toy_context 3) 1 2 5 (toy_payload [2])) toy_state
          = (toy_state, Inl e))"
proof -
  let ?r = "\<lparr> kernelId = 1657, result = [2], err = [] \<rparr>"
  let ?resp =
    "testWebhookResponse ''rejected'' ''High'' ''High risk indicators detected - transaction blocked'' 85 ''tx-2''"
  have rs: "abi_decode_KernelResponses toy_evm (kernelResponses (toy_payload [2])) = Some [?r]"
    by (simp add: toy_evm_def toy_payload_def)
  have r: "find (\<lambda>r. kernelId r = 1657) [?r] = Some ?r" by simp
  have resp: "abi_decode_WebhookResponse toy_evm (result ?r) = Some ?resp"
    by (simp add: toy_evm_def toy_decode_WebhookResponse_def)
  have st: "status (payload ?resp) \<noteq> ''approved''"
    by (simp add: testWebhookResponse_def testWebhookPayload_def)
  from non_approved_decision_reverts_whole_call
         [OF toy_evm_approved_hash_unique rs r resp st, of "toy_context 1" 2 5 toy_state 1]
       non_approved_decision_reverts_whole_call
         [OF toy_evm_approved_hash_unique rs r resp st, of "toy_context 3" 2 5 toy_state 1]
  show ?thesis by blast
qed

text \<open>
  C5, as the code has it. For a single response of kernel 1657 carrying a payload, the
  script's \<open>simulateTokenTransferVerification\<close> is the contract's decision together with two
  more conditions: the risk level does not hash to the hash of "High" and the risk score is
  at most 90. So the script allows only what the contract allows, and the two agree on every
  payload that meets the two conditions.
\<close>

theorem simulation_is_contract_decision_with_two_more_gates:
  assumes rs: "abi_decode_KernelResponses ev (kernelResponses krnlPayload) = Some [r]"
    and k: "kernelId r = 1657"
    and d: "abi_decode_WebhookResponse ev (result r) = Some response"
  shows "\<exists>st' allowed.
           checkTransferAllowed ev ctx krnlPayload from to amount st = Inr (st', allowed)
         \<and> simulateTokenTransferVerification ev (payload response)
             = (allowed
                \<and> keccak256 ev (bytes_of (riskLevel (payload response))) \<noteq> keccak256 ev (bytes_of ''High'')
                \<and> riskScore (payload response) \<le> 90)"
  using k d
  by (auto simp: checkTransferAllowed_def rs simulateTokenTransferVerification_def Let_def not_less)

text \<open>The theorem at work on the script's first test case: approved, "Low", 15.\<close>

theorem simulation_is_contract_decision_with_two_more_gates_witness:
  "\<exists>st' allowed.
     checkTransferAllowed toy_evm (toy_context 1) (toy_payload [1]) 1 2 5 toy_state = Inr (st', allowed)
   \<and> simulateTokenTransferVerification toy_evm
        (payload (testWebhookResponse ''approved'' ''Low'' ''Transaction approved after risk assessment'' 15 ''tx-1''))
       = (allowed
          \<and> keccak256 toy_evm (bytes_of (riskLevel (payload
               (testWebhookResponse ''approved'' ''Low'' ''Transaction approved after risk assessment'' 15 ''tx-1''))))
              \<noteq> keccak256 toy_evm (bytes_of ''High'')
          \<and> riskScore (payload
               (testWebhookResponse ''approved'' ''Low'' ''Transaction approved after risk assessment'' 15 ''tx-1''))
              \<le> 90)"
proof -
  let ?r = "\<lparr> kernelId = 1657, result = [1], err = [] \<rparr>"
  have rs: "abi_decode_KernelResponses toy_evm (kernelResponses (toy_payload [1])) = Some [?r]"
    by (simp add: toy_evm_def toy_payload_def)
  have k: "kernelId ?r = 1657" by simp
  have d: "abi_decode_WebhookResponse toy_evm (result ?r)
             = Some (testWebhookResponse ''approved'' ''Low'' ''Transaction approved after risk assessment'' 15 ''tx-1'')"
    by (simp add: toy_evm_def toy_decode_WebhookResponse_def)
  show ?thesis by (rule simulation_is_contract_decision_with_two_more_gates [OF rs k d])
qed

text \<open>
  C5 as stated fails: for the payload with status "approved", risk level "High" and risk
  score 15, carried by a single response of kernel 1657, the contract allows the transfer and
  the script's simulation refuses it.
\<close>

theorem approved_high_risk_allowed_by_contract_refused_by_script:
  "map_sum id snd (checkTransferAllowed toy_evm (toy_context 1) (toy_payload [3]) 1 2 5 toy_state) = Inr True
   \<and> abi_decode_KernelResponses toy_evm (kernelResponses (toy_payload [3]))
       = Some [\<lparr> kernelId = 1657, result = [3], err = [] \<rparr>]
   \<and> abi_decode_WebhookResponse toy_evm [3]
       = Some (testWebhookResponse ''approved'' ''High'' ''Transaction approved after risk assessment'' 15 ''tx-3'')
   \<and> simulateTokenTransferVerification toy_evm
        (payload (testWebhookResponse ''approved'' ''High'' ''Transaction approved after risk assessment'' 15 ''tx-3''))
       = False"
  by (simp add: checkTransferAllowed_def toy_defs simulateTokenTransferVerification_def Let_def)

text \<open>
  C9. Whoever calls, whatever the recipient, the amount and the allowances: the legacy entry
  points \<open>transfer\<close> and \<open>transferFrom\<close> revert with their guidance message, and the state
  after the call (balances included) is the state before it.
\<close>

theorem legacy_transfers_always_revert:
  "execute (transfer ctx to amount) st = (st, Inl (Revert ''Use transfer with KRNL payload''))
   \<and> execute (transferFrom ctx from to amount) st
       = (st, Inl (Revert ''Use transferFrom with KRNL payload''))
   \<and> balances (fst (execute (transfer ctx to amount) st)) = balances st
   \<and> balances (fst (execute (transferFrom ctx from to amount) st)) = balances st"
  by (simp add: execute_def transfer_def transferFrom_def)

section \<open>Properties of the off-chain side\<close>

subsection \<open>The ABI encoding and the builders\<close>

lemma length_be_bytes: "length (be_bytes n v) = n"
  by (induction n arbitrary: v) simp_all

lemma be_nat_snoc: "be_nat (bs @ [b]) = be_nat bs * 256 + unat b"
  by (simp add: be_nat_def)

lemma unat_byte_mod: "unat (of_nat (v mod 256) :: 8 word) = v mod 256"
  by (simp add: unat_of_nat)

lemma be_nat_be_bytes: "be_nat (be_bytes n v) = v mod 256 ^ n"
proof (induction n arbitrary: v)
  case 0
  then show ?case by (simp add: be_nat_def)
next
  case (Suc n)
  have "be_nat (be_bytes (Suc n) v) = (v div 256) mod 256 ^ n * 256 + v mod 256"
    by (simp add: be_nat_snoc Suc.IH unat_byte_mod)
  also have "\<dots> = v mod 256 ^ Suc n"
    by (simp add: mod_mult2_eq)
  finally show ?case .
qed

lemma abiCoder_roundtrip:
  assumes enc: "abiCoder_encode_address_uint256 env recipient wei = Inr bs"
  shows "\<exists>a. getAddress env recipient = Some a
           \<and> bs = abi_encode_address a @ abi_encode_uint256 (word_of_int wei)
           \<and> abiCoder_decode_address_uint256 bs = Some (a, wei)"
proof -
  from enc obtain a where a: "getAddress env recipient = Some a"
    by (cases "getAddress env recipient") (auto simp: abiCoder_encode_address_uint256_def)
  from enc a have range: "0 \<le> wei" "wei < 2 ^ 256"
    and bs: "bs = abi_encode_address a @ abi_encode_uint256 (word_of_int wei)"
    by (auto simp: abiCoder_encode_address_uint256_def split: if_splits)
  have la: "length (abi_encode_address a) = 32" and lv: "length (abi_encode_uint256 w) = 32" for w
    by (simp_all add: abi_encode_address_def abi_encode_uint256_def length_be_bytes)
  have t1: "take 32 bs = abi_encode_address a"
    by (simp add: bs la)
  have t2: "take 32 (drop 32 bs) = abi_encode_uint256 (word_of_int wei)"
    by (simp add: bs la lv)
  have ua: "unat a < 2 ^ 160" using unsigned_less [of a] by simp
  have "(2::nat) ^ 160 \<le> 256 ^ 32" by simp
  with ua have ua': "unat a < 256 ^ 32" by (rule less_le_trans)
  have "be_nat (abi_encode_address a) = unat a mod 256 ^ 32"
    unfolding abi_encode_address_def by (rule be_nat_be_bytes)
  with ua' have da: "be_nat (take 32 bs) = unat a"
    by (simp only: t1 mod_less)
  have uv: "unat (word_of_int wei :: uint256) = nat wei"
    using range by (simp add: unat_eq_nat_uint uint_word_of_int take_bit_eq_mod)
  have "(256::nat) ^ 32 = 2 ^ 256" by simp
  moreover have "nat wei < 2 ^ 256" using range by (simp add: nat_less_iff)
  ultimately have nv: "nat wei < 256 ^ 32" by (simp only:)
  have "be_nat (abi_encode_uint256 (word_of_int wei)) = nat wei mod 256 ^ 32"
    unfolding abi_encode_uint256_def uv by (rule be_nat_be_bytes)
  with nv have dv: "be_nat (take 32 (drop 32 bs)) = nat wei"
    by (simp only: t2 mod_less)
  have len: "\<not> length bs < 64" by (simp add: bs la lv)
  have "abiCoder_decode_address_uint256 bs = Some (a, wei)"
    using ua range by (simp add: abiCoder_decode_address_uint256_def len da dv Let_def)
  with a bs show ?thesis by blast
qed

subsection \<open>Rendering and parsing a decimal\<close>




















lemma dropWhile_Nil_all: "dropWhile P xs = [] \<Longrightarrow> x \<in> set xs \<Longrightarrow> P x"
  by (simp add: dropWhile_eq_Nil_conv)

lemma strip_head_all:
  "(\<And>y. y \<in> set (if r \<noteq> [] \<and> hd r = d then tl r else r) \<Longrightarrow> Q y) \<Longrightarrow> x \<in> set r \<Longrightarrow> Q x \<or> x = d"
  by (cases r) (auto split: if_splits)

lemma dropWhile_all:
  assumes "\<And>y. y \<in> set (dropWhile P u) \<Longrightarrow> Q y" and "x \<in> set u"
  shows "P x \<or> Q x"
proof -
  from assms(2) have "x \<in> set (takeWhile P u @ dropWhile P u)" by simp
  then have "x \<in> set (takeWhile P u) \<or> x \<in> set (dropWhile P u)" by (simp only: set_append Un_iff)
  then show ?thesis using assms(1) by (auto dest: set_takeWhileD)
qed

lemma parseUnits_chars:
  assumes p: "parseUnits s d = Some w" and c: "c \<in> set s"
  shows "is_digit c \<or> c = CHR ''.'' \<or> c = CHR ''-''"
proof -
  define u where "u = (if s \<noteq> [] \<and> hd s = CHR ''-'' then tl s else s)"
  define rest where "rest = dropWhile is_digit u"
  define rest' where "rest' = (if rest \<noteq> [] \<and> hd rest = CHR ''.'' then tl rest else rest)"
  have "parseUnits s d = None" if "dropWhile is_digit rest' \<noteq> []"
    using that unfolding rest'_def rest_def u_def parseUnits_def Let_def
    by (simp only: simp_thms if_True)
  with p have tr: "dropWhile is_digit rest' = []" by (cases "dropWhile is_digit rest' = []") simp_all
  have r': "is_digit x" if "x \<in> set rest'" for x
    using tr that by (rule dropWhile_Nil_all)
  have r: "is_digit x \<or> x = CHR ''.''" if "x \<in> set rest" for x
    using r' [unfolded rest'_def] that by (rule strip_head_all)
  have u: "is_digit x \<or> x = CHR ''.''" if "x \<in> set u" for x
    using dropWhile_all [of is_digit u "\<lambda>y. is_digit y \<or> y = CHR ''.''" x] r that
    unfolding rest_def by simp
  from strip_head_all [of s "CHR ''-''" "\<lambda>y. is_digit y \<or> y = CHR ''.''" c] u c
  show ?thesis unfolding u_def by auto
qed

lemma parseUnits_rejects:
  "c \<in> set s \<Longrightarrow> \<not> is_digit c \<Longrightarrow> c \<noteq> CHR ''.'' \<Longrightarrow> c \<noteq> CHR ''-'' \<Longrightarrow> parseUnits s d = None"
  using parseUnits_chars [of s d _ c] by (cases "parseUnits s d") auto

lemma not_digit_e: "\<not> is_digit (CHR ''e'')" and not_digit_N: "\<not> is_digit (CHR ''N'')"
  and not_digit_I: "\<not> is_digit (CHR ''I'')"
  by (simp_all add: is_digit_def)










lemma number_toString_5: "number_toString (Finite 5) = ''5''"
  by code_simp


lemma replicate_18: "replicate 18 c = [c, c, c, c, c, c, c, c, c, c, c, c, c, c, c, c, c, c]"
  by (simp add: eval_nat_numeral)

lemma parseUnits_5: "parseUnits ''5'' 18 = Some 5000000000000000000"
  unfolding parseUnits_def Let_def
  by (simp add: is_digit_def nat_of_digits_def digit_value_def replicate_18)


lemma toWei_5: "toWei (Finite 5) = Some 5000000000000000000"
  by (simp only: toWei_def number_toString_5 parseUnits_5)


lemma toWei_small: "toWei (Finite (1 / 10000000)) = None"
proof -
  have "number_toString (Finite (1 / 10000000)) = ''1e-7''" by code_simp
  moreover have "parseUnits ''1e-7'' 18 = None"
    by (rule parseUnits_rejects [of "CHR ''e''"]) (simp_all add: not_digit_e)
  ultimately show ?thesis by (simp add: toWei_def)
qed

subsection \<open>What a successful builder call did\<close>

lemma executeTokenTransfer_success:
  assumes ok: "executeTokenTransfer env amb sender recipient amount = Inr call"
  shows "\<exists>s r wei bs.
           sender = Some s \<and> s \<noteq> [] \<and> recipient = Some r \<and> r \<noteq> []
         \<and> number_truthy amount \<and> \<not> number_le_zero amount
         \<and> toWei amount = Some wei
         \<and> abiCoder_encode_address_uint256 env r wei = Inr bs
         \<and> call = \<lparr> entryId = ENTRY_ID env, accessToken = ACCESS_TOKEN env,
                    requestData = kernelRequestData s (KERNEL_ID env)
                      (attestationBody (uniqueTransactionId_generated amb) (Date_toISOString amb)
                         (JNum (Finite (1 / 2)))),
                    functionParams = bs \<rparr>"
  using ok
  by (auto simp: executeTokenTransfer_def string_truthy_def Let_def
        split: if_splits option.splits sum.splits)

lemma request_body_kernelRequestData:
  "request_body k (kernelRequestData s k body) = body"
  by (simp add: request_body_def kernelRequestData_def get_prop_def)

lemma executeKrnl_success:
  assumes ok: "executeKrnl env amb address' transactionData' customKernelId = Inr (td', call)"
  shows "\<exists>td uid. transactionData' = Some td \<and> td_externalTransactionId td = Some uid \<and> uid \<noteq> []
           \<and> td_externalTransactionId td' = Some uid
           \<and> request_body (if string_truthy customKernelId then the customKernelId else KERNEL_ID env)
                 (requestData call)
               = attestationBody uid (Date_toISOString amb)
                   (JNum (case td_amount td of None \<Rightarrow> Finite (1 / 10)
                          | Some n \<Rightarrow> if number_truthy n then n else Finite (1 / 10)))"
proof -
  from ok obtain td where td: "transactionData' = Some td"
    by (cases transactionData') (auto simp: executeKrnl_def split: if_splits)
  from ok td obtain uid where uid: "td_externalTransactionId td = Some uid" "uid \<noteq> []"
    by (cases "td_externalTransactionId td") (auto simp: executeKrnl_def string_truthy_def split: if_splits)
  from ok td uid have "td_externalTransactionId td' = Some uid
      \<and> requestData call = kernelRequestData (the address')
            (if string_truthy customKernelId then the customKernelId else KERNEL_ID env)
            (attestationBody uid (Date_toISOString amb)
               (JNum (case td_amount td of None \<Rightarrow> Finite (1 / 10)
                      | Some n \<Rightarrow> if number_truthy n then n else Finite (1 / 10))))"
    by (auto simp: executeKrnl_def string_truthy_def Let_def split: if_splits option.splits sum.splits)
  with td uid show ?thesis
    by (simp add: request_body_kernelRequestData)
qed

lemmas toy_builder_defs = toy_builder_env_def toy_ambient_def executeTokenTransfer_def executeKrnl_def
  string_truthy_def number_truthy_def number_le_zero_def toWei_5 abiCoder_encode_address_uint256_def
  string_of_nat.simps
  abiCoder_encode_string_uint256_address_def uniqueTransactionId_generated_def substring_def

subsection \<open>The claims on the builders\<close>



text \<open>
  C7. A missing sender or recipient fails with the error of the first check, an amount that
  is zero, negative or not a number with the error of the second (in particular amount 0), and
  a recipient that is not an address fails in the ABI coder; in each of these cases the
  builder throws, and issues no call to the kernel.
\<close>

theorem invalid_input_issues_no_kernel_request:
  "(\<not> string_truthy sender \<or> \<not> string_truthy recipient \<longrightarrow>
      executeTokenTransfer env amb sender recipient amount
        = Inl (Error ''Sender and recipient addresses are required''))
   \<and> (string_truthy sender \<and> string_truthy recipient
        \<and> (\<not> number_truthy amount \<or> number_le_zero amount) \<longrightarrow>
      executeTokenTransfer env amb sender recipient amount = Inl (Error ''Amount must be greater than 0''))
   \<and> (string_truthy sender \<and> string_truthy recipient \<longrightarrow>
      executeTokenTransfer env amb sender recipient (Finite 0) = Inl (Error ''Amount must be greater than 0''))
   \<and> ((\<exists>r. recipient = Some r \<and> getAddress env r = None) \<longrightarrow>
      (\<exists>e. executeTokenTransfer env amb sender recipient amount = Inl e))
   \<and> (\<not> string_truthy sender \<or> \<not> string_truthy recipient
        \<or> (\<exists>r. recipient = Some r \<and> getAddress env r = None)
        \<or> \<not> number_truthy amount \<or> number_le_zero amount \<longrightarrow>
      (\<forall>call. executeTokenTransfer env amb sender recipient amount \<noteq> Inr call))"
proof -
  have missing: "\<not> string_truthy sender \<or> \<not> string_truthy recipient \<Longrightarrow>
      executeTokenTransfer env amb sender recipient amount
        = Inl (Error ''Sender and recipient addresses are required'')"
    by (auto simp: executeTokenTransfer_def)
  have amt: "string_truthy sender \<and> string_truthy recipient
        \<and> (\<not> number_truthy x \<or> number_le_zero x) \<Longrightarrow>
      executeTokenTransfer env amb sender recipient x = Inl (Error ''Amount must be greater than 0'')" for x
    by (auto simp: executeTokenTransfer_def)
  have zero: "\<not> number_truthy (Finite 0)" by (simp add: number_truthy_def)
  have fmt: "\<exists>e. executeTokenTransfer env amb sender recipient amount = Inl e"
    if "\<exists>r. recipient = Some r \<and> getAddress env r = None"
    using that
    by (auto simp: executeTokenTransfer_def abiCoder_encode_address_uint256_def Let_def
          split: option.splits)
  have none: "\<forall>call. executeTokenTransfer env amb sender recipient amount \<noteq> Inr call"
    if c: "\<not> string_truthy sender \<or> \<not> string_truthy recipient
        \<or> (\<exists>r. recipient = Some r \<and> getAddress env r = None)
        \<or> \<not> number_truthy amount \<or> number_le_zero amount"
  proof (cases "\<not> string_truthy sender \<or> \<not> string_truthy recipient")
    case True
    from missing [OF True] show ?thesis by simp
  next
    case False
    with c consider "\<exists>r. recipient = Some r \<and> getAddress env r = None"
      | "\<not> number_truthy amount \<or> number_le_zero amount" by blast
    then show ?thesis
    proof cases
      case 1
      from fmt [OF 1] show ?thesis by auto
    next
      case 2
      with False amt [of amount] show ?thesis by simp
    qed
  qed
  have zero': "string_truthy sender \<and> string_truthy recipient \<Longrightarrow>
      executeTokenTransfer env amb sender recipient (Finite 0) = Inl (Error ''Amount must be greater than 0'')"
    using amt [of "Finite 0"] zero by blast
  show ?thesis
    apply (intro conjI impI)
        apply (erule missing)
       apply (erule amt)
      apply (erule zero')
     apply (erule fmt)
    apply (erule none)
    done
qed

text \<open>
  The theorem at work on a missing sender, the amounts -3 and 0, and the recipient
  "not-an-address".
\<close>

theorem invalid_input_issues_no_kernel_request_witness:
  "executeTokenTransfer toy_builder_env (toy_ambient ''0.4fzyo82mvyr'') None
       (Some ''0x0000000000000000000000000000000000000002'') (Finite 5)
     = Inl (Error ''Sender and recipient addresses are required'')
   \<and> executeTokenTransfer toy_builder_env (toy_ambient ''0.4fzyo82mvyr'')
       (Some ''0x0000000000000000000000000000000000000001'')
       (Some ''0x0000000000000000000000000000000000000002'') (Finite (- 3))
     = Inl (Error ''Amount must be greater than 0'')
   \<and> executeTokenTransfer toy_builder_env (toy_ambient ''0.4fzyo82mvyr'')
       (Some ''0x0000000000000000000000000000000000000001'')
       (Some ''0x0000000000000000000000000000000000000002'') (Finite 0)
     = Inl (Error ''Amount must be greater than 0'')
   \<and> (\<exists>e. executeTokenTransfer toy_builder_env (toy_ambient ''0.4fzyo82mvyr'')
       (Some ''0x0000000000000000000000000000000000000001'') (Some ''not-an-address'') (Finite 5)
     = Inl e)"
proof -
  let ?amb = "toy_ambient ''0.4fzyo82mvyr''"
  let ?s = "Some ''0x0000000000000000000000000000000000000001''"
  let ?r = "Some ''0x0000000000000000000000000000000000000002''"
  have a: "\<not> string_truthy None \<or> \<not> string_truthy ?r" by (simp add: string_truthy_def)
  have b: "string_truthy ?s \<and> string_truthy ?r
      \<and> (\<not> number_truthy (Finite (- 3)) \<or> number_le_zero (Finite (- 3)))"
    by (simp add: string_truthy_def number_le_zero_def)
  have c: "string_truthy ?s \<and> string_truthy ?r" by (simp add: string_truthy_def)
  have d: "\<exists>r. Some ''not-an-address'' = Some r \<and> getAddress toy_builder_env r = None"
    by (simp add: toy_builder_env_def)
  have 1: "executeTokenTransfer toy_builder_env ?amb None ?r (Finite 5)
     = Inl (Error ''Sender and recipient addresses are required'')"
    by (rule invalid_input_issues_no_kernel_request [THEN conjunct1, THEN mp, OF a])
  have 2: "executeTokenTransfer toy_builder_env ?amb ?s ?r (Finite (- 3))
     = Inl (Error ''Amount must be greater than 0'')"
    by (rule invalid_input_issues_no_kernel_request [THEN conjunct2, THEN conjunct1, THEN mp, OF b])
  have 3: "executeTokenTransfer toy_builder_env ?amb ?s ?r (Finite 0)
     = Inl (Error ''Amount must be greater than 0'')"
    by (rule invalid_input_issues_no_kernel_request [THEN conjunct2, THEN conjunct2, THEN conjunct1, THEN mp, OF c])
  have 4: "\<exists>e. executeTokenTransfer toy_builder_env ?amb ?s (Some ''not-an-address'') (Finite 5) = Inl e"
    by (rule invalid_input_issues_no_kernel_request [THEN conjunct2, THEN conjunct2, THEN conjunct2, THEN conjunct1, THEN mp, OF d])
  from 1 2 3 4 show ?thesis by (intro conjI)
qed

text \<open>
  C8, as the code has it. \<open>executeTokenTransfer\<close> takes no id from its caller: the id in
  the body of every call it issues is "tx-", the milliseconds of \<open>Date.now()\<close>, "-", and the
  characters 2 to 9 of \<open>Math.random().toString(36)\<close>, which are at most 8 characters and
  exactly as many as that rendering has beyond its first two. \<open>executeKrnl\<close> never generates
  an id: without transaction data or without \<open>externalTransactionId\<close> it throws, and every
  call it issues carries the id the caller supplied.
\<close>

theorem transaction_id_generation:
  "(\<forall>call. executeTokenTransfer env amb sender recipient amount = Inr call \<longrightarrow>
       get_prop (request_body (KERNEL_ID env) (requestData call)) ''externalTransactionId''
         = JStr (''tx-'' @ string_of_nat (Date_now amb) @ ''-''
                 @ take 8 (drop 2 (Math_random_toString36 amb))))
   \<and> length (take 8 (drop 2 (Math_random_toString36 amb))) = min 8 (length (Math_random_toString36 amb) - 2)
   \<and> (string_truthy address'
        \<and> (transactionData' = None \<or> \<not> string_truthy (td_externalTransactionId (the transactionData'))) \<longrightarrow>
       executeKrnl env amb address' transactionData' customKernelId
         = Inl (Error ''Transaction data with externalTransactionId is required''))
   \<and> (\<forall>td' call. executeKrnl env amb address' transactionData' customKernelId = Inr (td', call) \<longrightarrow>
         (\<exists>td uid. transactionData' = Some td \<and> td_externalTransactionId td = Some uid \<and> uid \<noteq> []
            \<and> td_externalTransactionId td' = Some uid
            \<and> get_prop (request_body (if string_truthy customKernelId then the customKernelId else KERNEL_ID env)
                  (requestData call)) ''externalTransactionId'' = JStr uid))"
proof (intro conjI allI impI)
  fix call
  assume ok: "executeTokenTransfer env amb sender recipient amount = Inr call"
  from executeTokenTransfer_success [OF ok] obtain s where
    "requestData call = kernelRequestData s (KERNEL_ID env)
       (attestationBody (uniqueTransactionId_generated amb) (Date_toISOString amb) (JNum (Finite (1 / 2))))"
    by auto
  then show "get_prop (request_body (KERNEL_ID env) (requestData call)) ''externalTransactionId''
         = JStr (''tx-'' @ string_of_nat (Date_now amb) @ ''-''
                 @ take 8 (drop 2 (Math_random_toString36 amb)))"
    by (simp add: request_body_kernelRequestData attestationBody_def get_prop_def
          uniqueTransactionId_generated_def substring_def)
next
  show "length (take 8 (drop 2 (Math_random_toString36 amb))) = min 8 (length (Math_random_toString36 amb) - 2)"
    by (simp add: min_def)
next
  assume "string_truthy address'
        \<and> (transactionData' = None \<or> \<not> string_truthy (td_externalTransactionId (the transactionData')))"
  then show "executeKrnl env amb address' transactionData' customKernelId
         = Inl (Error ''Transaction data with externalTransactionId is required'')"
    by (auto simp: executeKrnl_def)
next
  fix td' call
  assume ok: "executeKrnl env amb address' transactionData' customKernelId = Inr (td', call)"
  from executeKrnl_success [OF ok] obtain td uid where
    f: "transactionData' = Some td" "td_externalTransactionId td = Some uid" "uid \<noteq> []"
       "td_externalTransactionId td' = Some uid"
    and b: "request_body (if string_truthy customKernelId then the customKernelId else KERNEL_ID env)
                 (requestData call)
               = attestationBody uid (Date_toISOString amb)
                   (JNum (case td_amount td of None \<Rightarrow> Finite (1 / 10)
                          | Some n \<Rightarrow> if number_truthy n then n else Finite (1 / 10)))"
    by (elim exE conjE)
  have "get_prop (request_body (if string_truthy customKernelId then the customKernelId else KERNEL_ID env)
                  (requestData call)) ''externalTransactionId'' = JStr uid"
    unfolding b by (simp add: attestationBody_def get_prop_def)
  with f show "\<exists>td uid. transactionData' = Some td \<and> td_externalTransactionId td = Some uid \<and> uid \<noteq> []
            \<and> td_externalTransactionId td' = Some uid
            \<and> get_prop (request_body (if string_truthy customKernelId then the customKernelId else KERNEL_ID env)
                  (requestData call)) ''externalTransactionId'' = JStr uid"
    by (intro exI conjI)
qed

text \<open>
  The theorem at work: a generated id with 8 random characters, and \<open>executeKrnl\<close>
  passing on the id "order-42".
\<close>

theorem transaction_id_generation_witness:
  "(\<exists>call. executeTokenTransfer toy_builder_env (toy_ambient ''0.4fzyo82mvyr'')
            (Some ''0x0000000000000000000000000000000000000001'')
            (Some ''0x0000000000000000000000000000000000000002'') (Finite 5) = Inr call
        \<and> get_prop (request_body ''1657'' (requestData call)) ''externalTransactionId''
            = JStr ''tx-1700000000000-4fzyo82m'')
   \<and> (\<exists>td' call. executeKrnl toy_builder_env (toy_ambient ''0.4fzyo82mvyr'')
            (Some ''0x0000000000000000000000000000000000000001'')
            (Some \<lparr> td_externalTransactionId = Some ''order-42'', td_amount = Some (Finite 5),
                     td_transactionInfo = None, td_address = None \<rparr>) None = Inr (td', call)
        \<and> get_prop (request_body ''1657'' (requestData call)) ''externalTransactionId''
            = JStr ''order-42'')"
proof -
  let ?amb = "toy_ambient ''0.4fzyo82mvyr''"
  let ?td = "\<lparr> td_externalTransactionId = Some ''order-42'', td_amount = Some (Finite 5),
                td_transactionInfo = None, td_address = None \<rparr>"
  have "\<exists>call. executeTokenTransfer toy_builder_env ?amb
            (Some ''0x0000000000000000000000000000000000000001'')
            (Some ''0x0000000000000000000000000000000000000002'') (Finite 5) = Inr call"
    by (simp add: toy_builder_defs Let_def)
  then obtain call where ok: "executeTokenTransfer toy_builder_env ?amb
            (Some ''0x0000000000000000000000000000000000000001'')
            (Some ''0x0000000000000000000000000000000000000002'') (Finite 5) = Inr call" ..
  from transaction_id_generation [THEN conjunct1, THEN spec, THEN mp, OF ok]
  have 1: "get_prop (request_body ''1657'' (requestData call)) ''externalTransactionId''
            = JStr ''tx-1700000000000-4fzyo82m''"
    by (simp add: toy_builder_env_def toy_ambient_def string_of_nat.simps)
  have "\<exists>td' call. executeKrnl toy_builder_env ?amb
            (Some ''0x0000000000000000000000000000000000000001'') (Some ?td) None = Inr (td', call)"
    by (simp add: toy_builder_defs Let_def)
  then obtain td' call' where ok': "executeKrnl toy_builder_env ?amb
            (Some ''0x0000000000000000000000000000000000000001'') (Some ?td) None = Inr (td', call')"
    by blast
  from transaction_id_generation [THEN conjunct2, THEN conjunct2, THEN conjunct2, THEN spec, THEN spec, THEN mp, OF ok']
  have 2: "get_prop (request_body ''1657'' (requestData call')) ''externalTransactionId'' = JStr ''order-42''"
    by (auto simp: toy_builder_env_def string_truthy_def)
  from ok 1 ok' 2 show ?thesis by blast
qed

text \<open>
  C8 as stated fails twice. In \<open>executeKrnl\<close> an absent \<open>externalTransactionId\<close> does not
  lead to a generated id but to the error of the function's second check. And when
  \<open>Math.random()\<close> is 0.5, whose rendering in base 36 is "0.i", the id that
  \<open>executeTokenTransfer\<close> generates has one random character, not 8.
\<close>

theorem transaction_id_absent_or_short:
  "executeKrnl toy_builder_env (toy_ambient ''0.4fzyo82mvyr'')
       (Some ''0x0000000000000000000000000000000000000001'')
       (Some \<lparr> td_externalTransactionId = None, td_amount = Some (Finite 5),
                td_transactionInfo = None, td_address = None \<rparr>) None
     = Inl (Error ''Transaction data with externalTransactionId is required'')
   \<and> executeTokenTransfer toy_builder_env (toy_ambient ''0.i'')
       (Some ''0x0000000000000000000000000000000000000001'')
       (Some ''0x0000000000000000000000000000000000000002'') (Finite 5)
     = Inr \<lparr> entryId = ''entry-1'', accessToken = ''token-1'',
             requestData = kernelRequestData ''0x0000000000000000000000000000000000000001'' ''1657''
               (attestationBody ''tx-1700000000000-i'' ''2023-11-14T22:13:20.000Z'' (JNum (Finite (1 / 2)))),
             functionParams = abi_encode_address 2 @ abi_encode_uint256 5000000000000000000 \<rparr>"
  by (simp add: toy_builder_defs Let_def)

text \<open>
  C10. In every call that \<open>executeTokenTransfer\<close> issues, the body of the request has
  \<open>transactionInfo.amount\<close> 0.5, the originator "Bob Smith" and the beneficiary "Alice
  Carter"; the whole request is the same for every other amount with which the builder issues
  a call (same sender, recipient, clock and random source); and the function parameters are
  the ABI encoding of the recipient's address and \<open>toWei(amount)\<close>.
\<close>

theorem attestation_amount_is_constant:
  assumes ok: "executeTokenTransfer env amb sender recipient amount = Inr call"
  shows "get_prop (get_prop (request_body (KERNEL_ID env) (requestData call)) ''transactionInfo'') ''amount''
           = JNum (Finite (1 / 2))
       \<and> get_prop (get_prop (request_body (KERNEL_ID env) (requestData call)) ''originator'') ''name''
           = JStr ''Bob Smith''
       \<and> get_prop (get_prop (request_body (KERNEL_ID env) (requestData call)) ''beneficiary'') ''name''
           = JStr ''Alice Carter''
       \<and> (\<forall>amount2 call2. executeTokenTransfer env amb sender recipient amount2 = Inr call2 \<longrightarrow>
             requestData call2 = requestData call)
       \<and> (\<exists>r a wei. recipient = Some r \<and> getAddress env r = Some a \<and> toWei amount = Some wei
             \<and> functionParams call = abi_encode_address a @ abi_encode_uint256 (word_of_int wei))"
proof -
  from executeTokenTransfer_success [OF ok] obtain s :: string and r wei bs where
    s: "sender = Some s" and r: "recipient = Some r" and w: "toWei amount = Some wei"
    and enc: "abiCoder_encode_address_uint256 env r wei = Inr bs"
    and rd: "requestData call = kernelRequestData s (KERNEL_ID env)
       (attestationBody (uniqueTransactionId_generated amb) (Date_toISOString amb) (JNum (Finite (1 / 2))))"
    and fp: "functionParams call = bs"
    by auto
  have body: "request_body (KERNEL_ID env) (requestData call)
      = attestationBody (uniqueTransactionId_generated amb) (Date_toISOString amb) (JNum (Finite (1 / 2)))"
    by (simp only: rd request_body_kernelRequestData)
  have 1: "get_prop (get_prop (request_body (KERNEL_ID env) (requestData call)) ''transactionInfo'') ''amount''
           = JNum (Finite (1 / 2))"
    unfolding body by (simp add: attestationBody_def get_prop_def)
  have 2: "get_prop (get_prop (request_body (KERNEL_ID env) (requestData call)) ''originator'') ''name''
           = JStr ''Bob Smith''"
    unfolding body by (simp add: attestationBody_def get_prop_def)
  have 3: "get_prop (get_prop (request_body (KERNEL_ID env) (requestData call)) ''beneficiary'') ''name''
           = JStr ''Alice Carter''"
    unfolding body by (simp add: attestationBody_def get_prop_def)
  have 4: "requestData call2 = requestData call"
    if ok2: "executeTokenTransfer env amb sender recipient amount2 = Inr call2" for amount2 call2
  proof -
    from executeTokenTransfer_success [OF ok2] s have
      "requestData call2 = kernelRequestData s (KERNEL_ID env)
       (attestationBody (uniqueTransactionId_generated amb) (Date_toISOString amb) (JNum (Finite (1 / 2))))"
      by auto
    with rd show ?thesis by (simp only:)
  qed
  from abiCoder_roundtrip [OF enc] obtain a where
    a: "getAddress env r = Some a"
    and bs: "bs = abi_encode_address a @ abi_encode_uint256 (word_of_int wei)"
    by (elim exE conjE)
  from bs fp have fp': "functionParams call = abi_encode_address a @ abi_encode_uint256 (word_of_int wei)"
    by (simp only:)
  have 5: "\<exists>r a wei. recipient = Some r \<and> getAddress env r = Some a \<and> toWei amount = Some wei
             \<and> functionParams call = abi_encode_address a @ abi_encode_uint256 (word_of_int wei)"
    by (intro exI conjI) (rule r a w fp')+
  from 4 have indep: "\<forall>amount2 call2. executeTokenTransfer env amb sender recipient amount2 = Inr call2 \<longrightarrow>
             requestData call2 = requestData call" by (intro allI impI)
  from 1 2 3 indep 5 show ?thesis by (intro conjI)
qed

text \<open>
  The theorem at work: a transfer of 5 tokens is attested with the amount 0.5, and encoded
  with 5 * 10^18.
\<close>

theorem attestation_amount_is_constant_witness:
  "\<exists>call. executeTokenTransfer toy_builder_env (toy_ambient ''0.4fzyo82mvyr'')
            (Some ''0x0000000000000000000000000000000000000001'')
            (Some ''0x0000000000000000000000000000000000000002'') (Finite 5) = Inr call
        \<and> get_prop (get_prop (request_body ''1657'' (requestData call)) ''transactionInfo'') ''amount''
            = JNum (Finite (1 / 2))
        \<and> functionParams call = abi_encode_address 2 @ abi_encode_uint256 5000000000000000000"
proof -
  have "\<exists>call. executeTokenTransfer toy_builder_env (toy_ambient ''0.4fzyo82mvyr'')
            (Some ''0x0000000000000000000000000000000000000001'')
            (Some ''0x0000000000000000000000000000000000000002'') (Finite 5) = Inr call"
    by (simp add: toy_builder_defs Let_def)
  then obtain call where ok: "executeTokenTransfer toy_builder_env (toy_ambient ''0.4fzyo82mvyr'')
            (Some ''0x0000000000000000000000000000000000000001'')
            (Some ''0x0000000000000000000000000000000000000002'') (Finite 5) = Inr call" ..
  from attestation_amount_is_constant [OF ok]
  have "get_prop (get_prop (request_body ''1657'' (requestData call)) ''transactionInfo'') ''amount''
            = JNum (Finite (1 / 2))
        \<and> functionParams call = abi_encode_address 2 @ abi_encode_uint256 5000000000000000000"
    by (auto simp: toy_builder_env_def toWei_5)
  with ok show ?thesis by blast
qed

subsection \<open>The claim on the risk proxy\<close>

text \<open>
  The two single-address routes never answer \<open>null\<close> in a field: whatever the upstream
  body, each property of their answer is a string, a number, a boolean, an array, an object or
  absent, because \<open>processValue\<close> has replaced every \<open>null\<close> before the fields are picked.
\<close>

lemma processValue_not_null: "processValue v \<noteq> JNull"
  by (cases v) simp_all

lemma map_of_foldl_update:
  "map_of (foldl (\<lambda>obj (k, v). AList.update k v obj) init xs) = map_of init ++ map_of (rev xs)"
proof (induction xs arbitrary: init)
  case Nil
  then show ?case by simp
next
  case (Cons x xs)
  obtain k v where x: "x = (k, v)" by (cases x)
  have "map_of (foldl (\<lambda>obj (k, v). AList.update k v obj) init (x # xs))
      = map_of (AList.update k v init) ++ map_of (rev xs)"
    by (simp add: x Cons.IH)
  also have "\<dots> = map_of init ++ map_of (rev (x # xs))"
    by (simp add: x update_conv' map_add_upd_left)
  finally show ?case .
qed


lemma set_update_subset: "set (AList.update k v al) \<subseteq> insert (k, v) (set al)"
  by (induction al) auto

lemma set_foldl_update_subset:
  "set (foldl (\<lambda>obj (k, v). AList.update k v obj) init xs) \<subseteq> set init \<union> set xs"
proof (induction xs arbitrary: init)
  case Nil
  then show ?case by simp
next
  case (Cons x xs)
  obtain k v where x: "x = (k, v)" by (cases x)
  have "set (foldl (\<lambda>obj (k, v). AList.update k v obj) init (x # xs))
      \<subseteq> set (AList.update k v init) \<union> set xs"
    using Cons.IH [of "AList.update k v init"] by (simp add: x)
  also have "\<dots> \<subseteq> set init \<union> set (x # xs)"
    using set_update_subset [of k v init] by (auto simp: x)
  finally show ?case .
qed

lemma get_prop_object_not_null:
  assumes "\<And>k v. (k, v) \<in> set kvs \<Longrightarrow> v \<noteq> JNull"
  shows "get_prop (JObj kvs) k \<noteq> JNull"
proof (cases "map_of kvs k")
  case None
  then show ?thesis by (simp add: get_prop_def)
next
  case (Some v)
  then have "(k, v) \<in> set kvs" by (rule map_of_SomeD)
  then have "v \<noteq> JNull" by (rule assms)
  with Some show ?thesis by (simp add: get_prop_def)
qed

lemma get_prop_renamed_not_null:
  assumes nn: "\<And>k v. (k, v) \<in> set kvs \<Longrightarrow> v \<noteq> JNull"
  shows "get_prop (renameTopAddressKey (JObj kvs)) k \<noteq> JNull"
proof (cases "map_of kvs ''address''")
  case None
  with get_prop_object_not_null [of kvs k, OF nn] show ?thesis by (simp add: renameTopAddressKey_def)
next
  case (Some a)
  then have "(''address'', a) \<in> set kvs" by (rule map_of_SomeD)
  then have a: "a \<noteq> JNull" by (rule nn)
  let ?rest = "filter (\<lambda>(k, v). k \<noteq> ''address'') kvs"
  let ?obj = "foldl (\<lambda>obj (k, v). AList.update k v obj) [(''walletAddress'', a)] ?rest"
  have "v \<noteq> JNull" if "(k', v) \<in> set ?obj" for k' v
  proof -
    from that set_foldl_update_subset [of "[(''walletAddress'', a)]" ?rest]
    have "(k', v) = (''walletAddress'', a) \<or> (k', v) \<in> set kvs" by auto
    with a nn show ?thesis by auto
  qed
  then have "get_prop (JObj ?obj) k \<noteq> JNull" by (rule get_prop_object_not_null)
  with Some show ?thesis by (simp add: renameTopAddressKey_def)
qed

lemma processValue_object_values:
  "(k, v) \<in> set (map (\<lambda>(key, val). (key, processValue val)) kvs) \<Longrightarrow> v \<noteq> JNull"
  by (auto simp: processValue_not_null)

lemma get_prop_renamed_processValue_not_null:
  "get_prop (renameTopAddressKey (processValue data)) k \<noteq> JNull"
proof (cases data)
  case (JObj kvs)
  then show ?thesis
    using get_prop_renamed_not_null [of "map (\<lambda>(key, val). (key, processValue val)) kvs" k]
      processValue_object_values [of _ _ kvs]
    by simp
qed (simp_all add: renameTopAddressKey_def get_prop_def)

lemma entityResponse_answers_no_null:
  assumes "entityResponse data = Inr out"
  shows "get_prop out k \<noteq> JNull"
proof -
  let ?renamed = "renameTopAddressKey (processValue data)"
  from assms have out: "out = JObj [(''walletAddress'', get_prop ?renamed ''walletAddress''),
                      (''risk'', get_prop ?renamed ''risk''),
                      (''riskReason'', get_prop ?renamed ''riskReason''),
                      (''status'', get_prop ?renamed ''status'')]"
    by (auto simp: entityResponse_def filterRiskFields_def Let_def split: if_splits)
  have "v \<noteq> JNull" if "(k', v) \<in> set [(''walletAddress'', get_prop ?renamed ''walletAddress''),
                      (''risk'', get_prop ?renamed ''risk''),
                      (''riskReason'', get_prop ?renamed ''riskReason''),
                      (''status'', get_prop ?renamed ''status'')]" for k' v
    using that get_prop_renamed_processValue_not_null [of data] by (auto dest!: sym [of JNull])
  then show ?thesis unfolding out by (rule get_prop_object_not_null)
qed

text \<open>
  C6 fails on the bulk route. For an upstream body whose \<open>riskReason\<close> is \<open>null\<close>,
  \<open>processBatchResults\<close> returns the field as \<open>null\<close>, where the single-address routes
  return the string "null" for the same body: the bulk route filters the assessment without
  passing it through \<open>processValue\<close>.
\<close>

theorem bulk_route_keeps_null:
  "processBatchResults
     [fetched ''0x0000000000000000000000000000000000000001''
        (JObj [(''address'', JStr ''0x0000000000000000000000000000000000000001''),
               (''risk'', JStr ''Low''), (''riskReason'', JNull), (''status'', JStr ''COMPLETE'')])]
     = Inr [JObj [(''walletAddress'', JStr ''0x0000000000000000000000000000000000000001''),
                  (''risk'', JStr ''Low''), (''riskReason'', JNull), (''status'', JStr ''COMPLETE'')]]
   \<and> entityResponse
        (JObj [(''address'', JStr ''0x0000000000000000000000000000000000000001''),
               (''risk'', JStr ''Low''), (''riskReason'', JNull), (''status'', JStr ''COMPLETE'')])
     = Inr (JObj [(''walletAddress'', JStr ''0x0000000000000000000000000000000000000001''),
                  (''risk'', JStr ''Low''), (''riskReason'', JStr ''null''), (''status'', JStr ''COMPLETE'')])"
  by (simp add: fetched_def entityResponse_def filterRiskFields_def renameTopAddressKey_def get_prop_def
        truthy_def)

end
